theory Spec2Isabelle
  imports Main "HOL-Library.Word" "HOL-Library.Option_ord" "HOL-Library.Product_Lexorder"
begin

section \<open>Values of the document model\<close>

text \<open>
  The program is a Python HTTP API (\<^verbatim>\<open>src/main.py\<close>, \<^verbatim>\<open>src/schemas.py\<close>) over two
  document collections. A storage document is a Python \<^verbatim>\<open>dict\<close> from field names to
  values; the values that occur are \<^verbatim>\<open>None\<close>, booleans, integers, strings, the store's
  12-byte identifiers, timestamps, lists and nested dictionaries. Strings are lists of
  code points below 256.
\<close>

type_synonym ObjectId = "96 word"

text \<open>A naive timestamp: year, month, day, hour, minute, second, microsecond.\<close>

type_synonym datetime = "nat \<times> nat \<times> nat \<times> nat \<times> nat \<times> nat \<times> nat"

datatype pyvalue =
    VNone
  | VBool bool
  | VInt int
  | VStr string
  | VObjectId ObjectId
  | VDatetime datetime
  | VList "pyvalue list"
  | VDict "(string \<times> pyvalue) list"

type_synonym doc = "string \<rightharpoonup> pyvalue"

subsection \<open>Rendering numbers\<close>

definition digit_char :: "nat \<Rightarrow> char" where
  "digit_char n = char_of (48 + n)"

fun dec_nat :: "nat \<Rightarrow> string" where
  "dec_nat n = (if n < 10 then [digit_char n] else dec_nat (n div 10) @ [digit_char (n mod 10)])"

declare dec_nat.simps [simp del]

definition dec_int :: "int \<Rightarrow> string" where
  "dec_int i = (if i < 0 then CHR ''-'' # dec_nat (nat (- i)) else dec_nat (nat i))"

definition zero_pad :: "nat \<Rightarrow> string \<Rightarrow> string" where
  "zero_pad k s = replicate (k - length s) CHR ''0'' @ s"

definition hex_char :: "nat \<Rightarrow> char" where
  "hex_char n = (if n < 10 then char_of (48 + n) else char_of (87 + n))"

fun hex_fixed :: "nat \<Rightarrow> nat \<Rightarrow> string" where
  "hex_fixed 0 n = []"
| "hex_fixed (Suc k) n = hex_fixed k (n div 16) @ [hex_char (n mod 16)]"

subsection \<open>The identifier codec\<close>

text \<open>
  \<^verbatim>\<open>str(oid)\<close> of a store identifier is the lower-case hexadecimal rendering of its
  12 bytes, 24 characters.
\<close>

definition str_ObjectId :: "ObjectId \<Rightarrow> string" where
  "str_ObjectId oid = hex_fixed 24 (unat oid)"

definition is_hex :: "char \<Rightarrow> bool" where
  "is_hex c = (let n = (of_char c :: nat) in
     (48 \<le> n \<and> n \<le> 57) \<or> (97 \<le> n \<and> n \<le> 102) \<or> (65 \<le> n \<and> n \<le> 70))"

definition hex_val :: "char \<Rightarrow> nat" where
  "hex_val c = (let n = (of_char c :: nat) in
     if n \<le> 57 then n - 48 else if 97 \<le> n then n - 87 else n - 55)"

definition well_formed_id :: "string \<Rightarrow> bool" where
  "well_formed_id s = (length s = 24 \<and> list_all is_hex s)"

text \<open>
  Modelled from the spec: the constructor \<^verbatim>\<open>ObjectId(text)\<close> of the store driver is not
  part of the sources. Following section 4.3, decoding fails with an invalid-identifier
  error unless the text is a well-formed 24-hex-character identifier, and otherwise
  yields the 12-byte value the digits spell.
\<close>

definition ObjectId_of_str :: "string \<Rightarrow> ObjectId option" where
  "ObjectId_of_str s =
     (if well_formed_id s then Some (word_of_nat (foldl (\<lambda>a c. 16 * a + hex_val c) 0 s))
      else None)"

subsection \<open>Truthiness and \<^verbatim>\<open>str\<close>\<close>

fun py_truthy :: "pyvalue \<Rightarrow> bool" where
  "py_truthy VNone = False"
| "py_truthy (VBool b) = b"
| "py_truthy (VInt i) = (i \<noteq> 0)"
| "py_truthy (VStr s) = (s \<noteq> [])"
| "py_truthy (VObjectId oid) = True"
| "py_truthy (VDatetime t) = True"
| "py_truthy (VList xs) = (xs \<noteq> [])"
| "py_truthy (VDict kvs) = (kvs \<noteq> [])"

fun join :: "string \<Rightarrow> string list \<Rightarrow> string" where
  "join sep [] = []"
| "join sep [x] = x"
| "join sep (x # y # ys) = x @ sep @ join sep (y # ys)"

definition printable :: "char \<Rightarrow> bool" where
  "printable c = (let n = (of_char c :: nat) in
     (32 \<le> n \<and> n < 127) \<or> (161 \<le> n \<and> n \<noteq> 173))"

definition repr_char :: "char \<Rightarrow> char \<Rightarrow> string" where
  "repr_char q c = (let n = (of_char c :: nat) in
     if c = q \<or> c = CHR 0x5C then [CHR 0x5C, c]
     else if n = 9 then [CHR 0x5C, CHR ''t'']
     else if n = 10 then [CHR 0x5C, CHR ''n'']
     else if n = 13 then [CHR 0x5C, CHR ''r'']
     else if printable c then [c]
     else [CHR 0x5C, CHR ''x''] @ hex_fixed 2 n)"

definition repr_str :: "string \<Rightarrow> string" where
  "repr_str s = (let q = (if CHR 0x27 \<in> set s \<and> CHR 0x22 \<notin> set s then CHR 0x22 else CHR 0x27)
     in [q] @ concat (map (repr_char q) s) @ [q])"

definition str_datetime :: "datetime \<Rightarrow> string" where
  "str_datetime t = (case t of (y, mo, d, h, mi, s, us) \<Rightarrow>
     zero_pad 4 (dec_nat y) @ ''-'' @ zero_pad 2 (dec_nat mo) @ ''-'' @ zero_pad 2 (dec_nat d)
     @ '' '' @ zero_pad 2 (dec_nat h) @ '':'' @ zero_pad 2 (dec_nat mi) @ '':''
     @ zero_pad 2 (dec_nat s) @ (if us = 0 then [] else ''.'' @ zero_pad 6 (dec_nat us)))"

definition repr_datetime :: "datetime \<Rightarrow> string" where
  "repr_datetime t = (case t of (y, mo, d, h, mi, s, us) \<Rightarrow>
     ''datetime.datetime('' @ join '', ''
       (map dec_nat ([y, mo, d, h, mi] @
          (if us \<noteq> 0 then [s, us] else if s \<noteq> 0 then [s] else []))) @ '')'')"

fun py_repr :: "pyvalue \<Rightarrow> string"
  and repr_elems :: "pyvalue list \<Rightarrow> string list"
  and repr_items :: "(string \<times> pyvalue) list \<Rightarrow> string list" where
  "py_repr VNone = ''None''"
| "py_repr (VBool b) = (if b then ''True'' else ''False'')"
| "py_repr (VInt i) = dec_int i"
| "py_repr (VStr s) = repr_str s"
| "py_repr (VObjectId oid) = ''ObjectId('' @ [CHR 0x27] @ str_ObjectId oid @ [CHR 0x27] @ '')''"
| "py_repr (VDatetime t) = repr_datetime t"
| "py_repr (VList xs) = ''['' @ join '', '' (repr_elems xs) @ '']''"
| "py_repr (VDict kvs) = ''{'' @ join '', '' (repr_items kvs) @ ''}''"
| "repr_elems [] = []"
| "repr_elems (x # xs) = py_repr x # repr_elems xs"
| "repr_items [] = []"
| "repr_items (kv # kvs) = (repr_str (fst kv) @ '': '' @ py_repr (snd kv)) # repr_items kvs"

fun py_str :: "pyvalue \<Rightarrow> string" where
  "py_str (VStr s) = s"
| "py_str (VObjectId oid) = str_ObjectId oid"
| "py_str (VDatetime t) = str_datetime t"
| "py_str v = py_repr v"

section \<open>The document serializer\<close>

text \<open>
  \<^verbatim>\<open>
  def serialize(doc: dict) -> dict:
      doc = dict(doc)
      if doc.get("_id"):
          doc["id"] = str(doc.pop("_id"))
      return doc
  \<close>
  \<^verbatim>\<open>doc.get("_id")\<close> is \<^verbatim>\<open>None\<close> for an absent key, which is falsy.
\<close>

definition serialize :: "doc \<Rightarrow> doc" where
  "serialize d =
     (case d ''_id'' of
        None \<Rightarrow> d
      | Some v \<Rightarrow>
          if py_truthy v then (d(''_id'' := None))(''id'' \<mapsto> VStr (py_str v)) else d)"

section \<open>Schemas\<close>

text \<open>
  The models of \<^verbatim>\<open>src/schemas.py\<close>. An optional field (\<^verbatim>\<open>Optional[...] = None\<close>) is
  an \<open>option\<close>; a record holds the text of a validated URL or e-mail address. Field names are
  prefixed with the name of their model.
\<close>

record ExperienceItem =
  exp_role :: string
  exp_company :: string
  exp_start_date :: string
  exp_end_date :: "string option"
  exp_description :: "string option"

record EducationItem =
  edu_school :: string
  edu_degree :: string
  edu_start_year :: "string option"
  edu_end_year :: "string option"

record Cv =
  cv_name :: string
  cv_title :: string
  cv_summary :: "string option"
  cv_location :: "string option"
  cv_email :: "string option"
  cv_phone :: "string option"
  cv_skills :: "string list"
  cv_experience :: "ExperienceItem list"
  cv_education :: "EducationItem list"
  cv_website :: "string option"
  cv_avatar_url :: "string option"

record Project =
  project_title :: string
  project_description :: "string option"
  project_tech_stack :: "string list"
  project_url :: "string option"
  project_repo_url :: "string option"
  project_image_url :: "string option"
  project_featured :: bool

subsection \<open>\<^verbatim>\<open>model_dump\<close>\<close>

text \<open>
  \<^verbatim>\<open>payload.model_dump()\<close> is a dictionary with one entry for every field of the model,
  in declaration order, whether the request supplied it or the default filled it in.
\<close>

definition dump_opt :: "string option \<Rightarrow> pyvalue" where
  "dump_opt x = (case x of None \<Rightarrow> VNone | Some s \<Rightarrow> VStr s)"

text \<open>
  A value of the dumped dictionary is either a value the store can hold, or the URL object
  that the validation library keeps for a validated \<^verbatim>\<open>HttpUrl\<close> field:
  \<^verbatim>\<open>model_dump()\<close> leaves that object in the dictionary, it does not turn it into a string.
\<close>

datatype pyobject = Bson pyvalue | Url string

definition dump_url :: "string option \<Rightarrow> pyobject" where
  "dump_url x = (case x of None \<Rightarrow> Bson VNone | Some u \<Rightarrow> Url u)"

definition model_dump_ExperienceItem :: "ExperienceItem \<Rightarrow> (string \<times> pyvalue) list" where
  "model_dump_ExperienceItem e =
     [(''role'', VStr (exp_role e)),
      (''company'', VStr (exp_company e)),
      (''start_date'', VStr (exp_start_date e)),
      (''end_date'', dump_opt (exp_end_date e)),
      (''description'', dump_opt (exp_description e))]"

definition model_dump_EducationItem :: "EducationItem \<Rightarrow> (string \<times> pyvalue) list" where
  "model_dump_EducationItem e =
     [(''school'', VStr (edu_school e)),
      (''degree'', VStr (edu_degree e)),
      (''start_year'', dump_opt (edu_start_year e)),
      (''end_year'', dump_opt (edu_end_year e))]"

definition Cv_fields :: "string list" where
  "Cv_fields = [''name'', ''title'', ''summary'', ''location'', ''email'', ''phone'', ''skills'',
     ''experience'', ''education'', ''website'', ''avatar_url'']"

definition model_dump_Cv :: "Cv \<Rightarrow> (string \<times> pyobject) list" where
  "model_dump_Cv c =
     [(''name'', Bson (VStr (cv_name c))),
      (''title'', Bson (VStr (cv_title c))),
      (''summary'', Bson (dump_opt (cv_summary c))),
      (''location'', Bson (dump_opt (cv_location c))),
      (''email'', Bson (dump_opt (cv_email c))),
      (''phone'', Bson (dump_opt (cv_phone c))),
      (''skills'', Bson (VList (map VStr (cv_skills c)))),
      (''experience'',
         Bson (VList (map (\<lambda>e. VDict (model_dump_ExperienceItem e)) (cv_experience c)))),
      (''education'',
         Bson (VList (map (\<lambda>e. VDict (model_dump_EducationItem e)) (cv_education c)))),
      (''website'', dump_url (cv_website c)),
      (''avatar_url'', dump_url (cv_avatar_url c))]"

text \<open>
  The defaults that \<^verbatim>\<open>src/schemas.py\<close> declares for the fields of \<^verbatim>\<open>Cv\<close> that are not
  required, as they appear in a dump.
\<close>

definition Cv_defaults :: "(string \<times> pyvalue) list" where
  "Cv_defaults =
     [(''summary'', VNone), (''location'', VNone), (''email'', VNone), (''phone'', VNone),
      (''skills'', VList []), (''experience'', VList []), (''education'', VList []),
      (''website'', VNone), (''avatar_url'', VNone)]"

definition Project_fields :: "string list" where
  "Project_fields = [''title'', ''description'', ''tech_stack'', ''url'', ''repo_url'',
     ''image_url'', ''featured'']"

definition model_dump_Project :: "Project \<Rightarrow> (string \<times> pyobject) list" where
  "model_dump_Project p =
     [(''title'', Bson (VStr (project_title p))),
      (''description'', Bson (dump_opt (project_description p))),
      (''tech_stack'', Bson (VList (map VStr (project_tech_stack p)))),
      (''url'', dump_url (project_url p)),
      (''repo_url'', dump_url (project_repo_url p)),
      (''image_url'', dump_url (project_image_url p)),
      (''featured'', Bson (VBool (project_featured p)))]"

definition Project_defaults :: "(string \<times> pyvalue) list" where
  "Project_defaults =
     [(''description'', VNone), (''tech_stack'', VList []), (''url'', VNone),
      (''repo_url'', VNone), (''image_url'', VNone), (''featured'', VBool False)]"

section \<open>Validation of request bodies\<close>

text \<open>
  A request body is a parsed JSON object: a dictionary from field names to values. A
  nested JSON object is a \<open>VDict\<close>, read through \<open>map_of\<close>.

  The models of \<^verbatim>\<open>src/schemas.py\<close> name three leaf validators of the validation library
  without defining them: the coercion of a value to \<^verbatim>\<open>bool\<close>, \<^verbatim>\<open>EmailStr\<close> and
  \<^verbatim>\<open>HttpUrl\<close>. They are parameters of the model. Each yields the validated value, or
  nothing when it rejects its input.
\<close>

record library =
  lax_bool :: "pyvalue \<Rightarrow> bool option"
  email_str :: "string \<Rightarrow> string option"
  http_url :: "string \<Rightarrow> string option"

subsection \<open>Field declarations\<close>

text \<open>
  \<^verbatim>\<open>name: T\<close> and \<^verbatim>\<open>name: T = Field(...)\<close> declare a required field; \<^verbatim>\<open>name: T = default\<close>
  and \<^verbatim>\<open>Field(default_factory=list)\<close> declare a field that takes its default when the
  body has no such key. \<^verbatim>\<open>Optional[T]\<close> accepts \<^verbatim>\<open>null\<close> besides \<open>T\<close>; \<^verbatim>\<open>List[T]\<close>
  accepts an array whose elements all are \<open>T\<close>.
\<close>

definition required :: "(pyvalue \<Rightarrow> 'a option) \<Rightarrow> pyvalue option \<Rightarrow> 'a option" where
  "required f x = (case x of None \<Rightarrow> None | Some v \<Rightarrow> f v)"

definition with_default :: "'a \<Rightarrow> (pyvalue \<Rightarrow> 'a option) \<Rightarrow> pyvalue option \<Rightarrow> 'a option" where
  "with_default dflt f x = (case x of None \<Rightarrow> Some dflt | Some v \<Rightarrow> f v)"

definition optional :: "(pyvalue \<Rightarrow> 'a option) \<Rightarrow> pyvalue \<Rightarrow> 'a option option" where
  "optional f v = (case v of VNone \<Rightarrow> Some None | _ \<Rightarrow> map_option Some (f v))"

definition list_of :: "(pyvalue \<Rightarrow> 'a option) \<Rightarrow> pyvalue \<Rightarrow> 'a list option" where
  "list_of f v = (case v of VList xs \<Rightarrow> those (map f xs) | _ \<Rightarrow> None)"

definition str_field :: "pyvalue \<Rightarrow> string option" where
  "str_field v = (case v of VStr s \<Rightarrow> Some s | _ \<Rightarrow> None)"

definition email_field :: "library \<Rightarrow> pyvalue \<Rightarrow> string option" where
  "email_field lib v = (case v of VStr s \<Rightarrow> email_str lib s | _ \<Rightarrow> None)"

definition url_field :: "library \<Rightarrow> pyvalue \<Rightarrow> string option" where
  "url_field lib v = (case v of VStr s \<Rightarrow> http_url lib s | _ \<Rightarrow> None)"

definition field_error :: "string \<Rightarrow> 'a option \<Rightarrow> string list" where
  "field_error name r = (case r of None \<Rightarrow> [name] | Some _ \<Rightarrow> [])"

subsection \<open>The four models\<close>

text \<open>
  Each validator reads the declared fields and nothing else, so a key that the model does
  not declare has no effect. On failure it reports the names of the fields that failed.
\<close>

definition validate_ExperienceItem :: "doc \<Rightarrow> string list + ExperienceItem" where
  "validate_ExperienceItem body =
     (let role = required str_field (body ''role'');
          company = required str_field (body ''company'');
          start_date = required str_field (body ''start_date'');
          end_date = with_default None (optional str_field) (body ''end_date'');
          description = with_default None (optional str_field) (body ''description'');
          errs = field_error ''role'' role @ field_error ''company'' company
               @ field_error ''start_date'' start_date @ field_error ''end_date'' end_date
               @ field_error ''description'' description
      in if errs = []
         then Inr \<lparr>exp_role = the role, exp_company = the company,
                   exp_start_date = the start_date, exp_end_date = the end_date,
                   exp_description = the description\<rparr>
         else Inl errs)"

definition validate_EducationItem :: "doc \<Rightarrow> string list + EducationItem" where
  "validate_EducationItem body =
     (let school = required str_field (body ''school'');
          degree = required str_field (body ''degree'');
          start_year = with_default None (optional str_field) (body ''start_year'');
          end_year = with_default None (optional str_field) (body ''end_year'');
          errs = field_error ''school'' school @ field_error ''degree'' degree
               @ field_error ''start_year'' start_year @ field_error ''end_year'' end_year
      in if errs = []
         then Inr \<lparr>edu_school = the school, edu_degree = the degree,
                   edu_start_year = the start_year, edu_end_year = the end_year\<rparr>
         else Inl errs)"

text \<open>A nested model is validated from a JSON object with the rules of its own class.\<close>

definition nested :: "(doc \<Rightarrow> string list + 'a) \<Rightarrow> pyvalue \<Rightarrow> 'a option" where
  "nested validate v =
     (case v of
        VDict kvs \<Rightarrow> (case validate (map_of kvs) of Inl errs \<Rightarrow> None | Inr x \<Rightarrow> Some x)
      | _ \<Rightarrow> None)"

definition validate_Cv :: "library \<Rightarrow> doc \<Rightarrow> string list + Cv" where
  "validate_Cv lib body =
     (let name = required str_field (body ''name'');
          title = required str_field (body ''title'');
          summary = with_default None (optional str_field) (body ''summary'');
          location = with_default None (optional str_field) (body ''location'');
          email = with_default None (optional (email_field lib)) (body ''email'');
          phone = with_default None (optional str_field) (body ''phone'');
          skills = with_default [] (list_of str_field) (body ''skills'');
          experience = with_default [] (list_of (nested validate_ExperienceItem)) (body ''experience'');
          education = with_default [] (list_of (nested validate_EducationItem)) (body ''education'');
          website = with_default None (optional (url_field lib)) (body ''website'');
          avatar_url = with_default None (optional (url_field lib)) (body ''avatar_url'');
          errs = field_error ''name'' name @ field_error ''title'' title
               @ field_error ''summary'' summary @ field_error ''location'' location
               @ field_error ''email'' email @ field_error ''phone'' phone
               @ field_error ''skills'' skills @ field_error ''experience'' experience
               @ field_error ''education'' education @ field_error ''website'' website
               @ field_error ''avatar_url'' avatar_url
      in if errs = []
         then Inr \<lparr>cv_name = the name, cv_title = the title, cv_summary = the summary,
                   cv_location = the location, cv_email = the email, cv_phone = the phone,
                   cv_skills = the skills, cv_experience = the experience,
                   cv_education = the education, cv_website = the website,
                   cv_avatar_url = the avatar_url\<rparr>
         else Inl errs)"

definition validate_Project :: "library \<Rightarrow> doc \<Rightarrow> string list + Project" where
  "validate_Project lib body =
     (let title = required str_field (body ''title'');
          description = with_default None (optional str_field) (body ''description'');
          tech_stack = with_default [] (list_of str_field) (body ''tech_stack'');
          url = with_default None (optional (url_field lib)) (body ''url'');
          repo_url = with_default None (optional (url_field lib)) (body ''repo_url'');
          image_url = with_default None (optional (url_field lib)) (body ''image_url'');
          featured = with_default False (lax_bool lib) (body ''featured'');
          errs = field_error ''title'' title @ field_error ''description'' description
               @ field_error ''tech_stack'' tech_stack @ field_error ''url'' url
               @ field_error ''repo_url'' repo_url @ field_error ''image_url'' image_url
               @ field_error ''featured'' featured
      in if errs = []
         then Inr \<lparr>project_title = the title, project_description = the description,
                   project_tech_stack = the tech_stack, project_url = the url,
                   project_repo_url = the repo_url, project_image_url = the image_url,
                   project_featured = the featured\<rparr>
         else Inl errs)"

subsection \<open>The field tables of the specification\<close>

text \<open>
  The data model as section 3 of the specification tabulates it: for every model the
  fields with their types, and the fields that are required. A payload violates a model
  when a required field is absent or null, or when a field that is present holds a value
  that is malformed for its type.
\<close>

datatype ftype =
    TStr
  | TBool
  | TEmail
  | TUrl
  | TOptional ftype
  | TList ftype
  | TExperienceItem
  | TEducationItem

definition ExperienceItem_schema :: "(string \<times> ftype) list" where
  "ExperienceItem_schema =
     [(''role'', TStr), (''company'', TStr), (''start_date'', TStr),
      (''end_date'', TOptional TStr), (''description'', TOptional TStr)]"

definition EducationItem_schema :: "(string \<times> ftype) list" where
  "EducationItem_schema =
     [(''school'', TStr), (''degree'', TStr),
      (''start_year'', TOptional TStr), (''end_year'', TOptional TStr)]"

definition Cv_schema :: "(string \<times> ftype) list" where
  "Cv_schema =
     [(''name'', TStr), (''title'', TStr), (''summary'', TOptional TStr),
      (''location'', TOptional TStr), (''email'', TOptional TEmail),
      (''phone'', TOptional TStr), (''skills'', TList TStr),
      (''experience'', TList TExperienceItem), (''education'', TList TEducationItem),
      (''website'', TOptional TUrl), (''avatar_url'', TOptional TUrl)]"

definition Project_schema :: "(string \<times> ftype) list" where
  "Project_schema =
     [(''title'', TStr), (''description'', TOptional TStr), (''tech_stack'', TList TStr),
      (''url'', TOptional TUrl), (''repo_url'', TOptional TUrl),
      (''image_url'', TOptional TUrl), (''featured'', TBool)]"

fun well_formed :: "(ftype \<Rightarrow> doc \<Rightarrow> bool) \<Rightarrow> library \<Rightarrow> ftype \<Rightarrow> pyvalue \<Rightarrow> bool" where
  "well_formed item lib TStr v = (case v of VStr s \<Rightarrow> True | _ \<Rightarrow> False)"
| "well_formed item lib TBool v = (lax_bool lib v \<noteq> None)"
| "well_formed item lib TEmail v = (case v of VStr s \<Rightarrow> email_str lib s \<noteq> None | _ \<Rightarrow> False)"
| "well_formed item lib TUrl v = (case v of VStr s \<Rightarrow> http_url lib s \<noteq> None | _ \<Rightarrow> False)"
| "well_formed item lib (TOptional t) v = (v = VNone \<or> well_formed item lib t v)"
| "well_formed item lib (TList t) v =
     (case v of VList xs \<Rightarrow> list_all (well_formed item lib t) xs | _ \<Rightarrow> False)"
| "well_formed item lib TExperienceItem v =
     (case v of VDict kvs \<Rightarrow> item TExperienceItem (map_of kvs) | _ \<Rightarrow> False)"
| "well_formed item lib TEducationItem v =
     (case v of VDict kvs \<Rightarrow> item TEducationItem (map_of kvs) | _ \<Rightarrow> False)"

definition malformed ::
    "(ftype \<Rightarrow> doc \<Rightarrow> bool) \<Rightarrow> library \<Rightarrow> ftype \<Rightarrow> pyvalue option \<Rightarrow> bool" where
  "malformed item lib t x =
     (case x of None \<Rightarrow> False | Some v \<Rightarrow> \<not> well_formed item lib t v)"

definition violates ::
    "(ftype \<Rightarrow> doc \<Rightarrow> bool) \<Rightarrow> library \<Rightarrow> string list \<Rightarrow> (string \<times> ftype) list \<Rightarrow> doc \<Rightarrow> bool" where
  "violates item lib required_fields schema body =
     (list_ex (\<lambda>f. body f = None \<or> body f = Some VNone) required_fields
      \<or> list_ex (\<lambda>ft. malformed item lib (snd ft) (body (fst ft))) schema)"

text \<open>
  The nested models have text fields only; their elements are checked with the same rule.
\<close>

definition item_ok :: "library \<Rightarrow> ftype \<Rightarrow> doc \<Rightarrow> bool" where
  "item_ok lib t body =
     (if t = TExperienceItem
      then \<not> violates (\<lambda>t b. False) lib [''role'', ''company'', ''start_date'']
               ExperienceItem_schema body
      else if t = TEducationItem
      then \<not> violates (\<lambda>t b. False) lib [''school'', ''degree''] EducationItem_schema body
      else False)"

section \<open>The document store\<close>

text \<open>
  The store holds, for every collection name, the documents of that collection in
  storage order. The process-wide handle \<^verbatim>\<open>db\<close> is \<^verbatim>\<open>None\<close> when the connection could
  not be established.
\<close>

type_synonym store = "string \<Rightarrow> doc list"

type_synonym db = "store option"

datatype error =
    HTTPException nat string
  | RequestValidationError "string list"
  | StoreUnavailable
  | InvalidId
  | InvalidDocument
  | AttributeError
  | TypeError

text \<open>
  The status a client sees: the code of an \<^verbatim>\<open>HTTPException\<close>, 422 for a payload the
  framework rejected, and the server's generic 500 for any exception no handler catches.
\<close>

fun http_status :: "error \<Rightarrow> nat" where
  "http_status (HTTPException code detail) = code"
| "http_status (RequestValidationError errs) = 422"
| "http_status e = 500"

fun unhandled :: "error \<Rightarrow> bool" where
  "unhandled (HTTPException code detail) = False"
| "unhandled (RequestValidationError errs) = False"
| "unhandled e = True"

definition response_status :: "error + 'a \<Rightarrow> nat" where
  "response_status r = (case r of Inl e \<Rightarrow> http_status e | Inr x \<Rightarrow> 200)"

subsection \<open>Collection operations\<close>

text \<open>
  Modelled from the spec: the collection methods \<^verbatim>\<open>find_one\<close>, \<^verbatim>\<open>update_one\<close>,
  \<^verbatim>\<open>delete_one\<close>, \<^verbatim>\<open>find\<close>, \<^verbatim>\<open>sort\<close> and \<^verbatim>\<open>limit\<close> belong to the store driver, which is
  not part of the sources. Following section 4.2 they are identifier-keyed
  single-document operations: \<^verbatim>\<open>find_one\<close> yields the document with the identifier or
  nothing, \<^verbatim>\<open>update_one\<close> with \<^verbatim>\<open>$set\<close> replaces only the supplied fields of that document
  and reports how many documents matched, \<^verbatim>\<open>delete_one\<close> removes it and reports how many
  were deleted.
\<close>

definition has_id :: "ObjectId \<Rightarrow> doc \<Rightarrow> bool" where
  "has_id oid d = (d ''_id'' = Some (VObjectId oid))"

definition find_one :: "doc list \<Rightarrow> ObjectId \<Rightarrow> doc option" where
  "find_one coll oid = List.find (has_id oid) coll"

text \<open>
  The driver encodes the \<^verbatim>\<open>$set\<close> document before it sends the command. A URL object is
  not a value it can encode: the call raises \<^verbatim>\<open>InvalidDocument\<close> and nothing is sent.
\<close>

fun encode_items :: "(string \<times> pyobject) list \<Rightarrow> (string \<times> pyvalue) list option" where
  "encode_items [] = Some []"
| "encode_items ((k, Bson v) # kvs) = map_option ((#) (k, v)) (encode_items kvs)"
| "encode_items ((k, Url u) # kvs) = None"

fun update_one :: "doc list \<Rightarrow> ObjectId \<Rightarrow> (string \<times> pyvalue) list \<Rightarrow> nat \<times> doc list" where
  "update_one [] oid kvs = (0, [])"
| "update_one (d # ds) oid kvs =
     (if has_id oid d then (1, (d ++ map_of kvs) # ds)
      else (case update_one ds oid kvs of (n, ds') \<Rightarrow> (n, d # ds')))"

fun delete_one :: "doc list \<Rightarrow> ObjectId \<Rightarrow> nat \<times> doc list" where
  "delete_one [] oid = (0, [])"
| "delete_one (d # ds) oid =
     (if has_id oid d then (1, ds)
      else (case delete_one ds oid of (n, ds') \<Rightarrow> (n, d # ds')))"

text \<open>
  Modelled from the spec: \<^verbatim>\<open>find().sort("created_at", -1).limit(1)\<close> sorts by creation
  timestamp, descending, before limiting. The key of a document is its \<^verbatim>\<open>created_at\<close>
  timestamp; a document without one sorts after every document that has one.
\<close>

definition created_at_key :: "doc \<Rightarrow> datetime option" where
  "created_at_key d = (case d ''created_at'' of Some (VDatetime t) \<Rightarrow> Some t | _ \<Rightarrow> None)"

fun insert_desc :: "('a \<Rightarrow> 'k::linorder) \<Rightarrow> 'a \<Rightarrow> 'a list \<Rightarrow> 'a list" where
  "insert_desc key x [] = [x]"
| "insert_desc key x (y # ys) =
     (if key y \<le> key x then x # y # ys else y # insert_desc key x ys)"

definition sort_desc :: "('a \<Rightarrow> 'k::linorder) \<Rightarrow> 'a list \<Rightarrow> 'a list" where
  "sort_desc key xs = foldr (insert_desc key) xs []"

subsection \<open>The gateway functions\<close>

text \<open>
  Modelled from the spec: \<^verbatim>\<open>create_document\<close> and \<^verbatim>\<open>get_documents\<close> are imported from the
  module \<^verbatim>\<open>database\<close>, which is not part of the sources. Following section 4.2,
  \<^verbatim>\<open>create_document\<close> stores the dumped record under the identifier the store assigns,
  stamped with its creation time, and returns the identifier's text; it fails with
  \<open>StoreUnavailable\<close> when there is no live connection. Serializing the record to a
  storage document keeps every value of the dump and stores a URL as its text. The
  identifier \<open>oid\<close> and the clock reading \<open>now\<close> are the store's and the clock's choices,
  taken as inputs.
  \<^verbatim>\<open>get_documents\<close> returns up to \<open>limit\<close> documents matching the filter, in storage order.
\<close>

definition storage_document :: "(string \<times> pyobject) list \<Rightarrow> (string \<times> pyvalue) list" where
  "storage_document dump =
     map (\<lambda>kv. (fst kv, case snd kv of Bson v \<Rightarrow> v | Url u \<Rightarrow> VStr u)) dump"

definition create_document ::
    "db \<Rightarrow> string \<Rightarrow> (string \<times> pyobject) list \<Rightarrow> ObjectId \<Rightarrow> datetime \<Rightarrow> (error + string) \<times> db" where
  "create_document db name dump oid now =
     (case db of
        None \<Rightarrow> (Inl StoreUnavailable, None)
      | Some s \<Rightarrow>
          (Inr (str_ObjectId oid),
           Some (s(name := s name @
             [(map_of (storage_document dump))
                (''created_at'' \<mapsto> VDatetime now, ''_id'' \<mapsto> VObjectId oid)]))))"

definition matches :: "(string \<times> pyvalue) list \<Rightarrow> doc \<Rightarrow> bool" where
  "matches flt d = list_all (\<lambda>kv. d (fst kv) = Some (snd kv)) flt"

definition get_documents :: "db \<Rightarrow> string \<Rightarrow> (string \<times> pyvalue) list \<Rightarrow> int \<Rightarrow> error + doc list" where
  "get_documents db name flt limit =
     (case db of
        None \<Rightarrow> Inl StoreUnavailable
      | Some s \<Rightarrow> Inr (take (nat limit) (filter (matches flt) (s name))))"

section \<open>Route handlers\<close>

text \<open>
  \<^verbatim>\<open>
  def to_object_id(id_str: str) -> ObjectId:
      try:
          return ObjectId(id_str)
      except Exception:
          raise HTTPException(status_code=400, detail="Invalid ID format")
  \<close>
\<close>

definition to_object_id :: "string \<Rightarrow> error + ObjectId" where
  "to_object_id id_str =
     (case ObjectId_of_str id_str of
        Some oid \<Rightarrow> Inr oid
      | None \<Rightarrow> Inl (HTTPException 400 ''Invalid ID format''))"

text \<open>
  \<^verbatim>\<open>serialize(created)\<close> on the result of \<^verbatim>\<open>find_one\<close>: \<^verbatim>\<open>dict(None)\<close> raises
  \<^verbatim>\<open>TypeError\<close>.
\<close>

definition serialize_found :: "doc option \<Rightarrow> error + doc" where
  "serialize_found r = (case r of None \<Rightarrow> Inl TypeError | Some d \<Rightarrow> Inr (serialize d))"

subsection \<open>CV endpoints\<close>

text \<open>
  \<^verbatim>\<open>
  def get_cv():
      if db is None:
          raise HTTPException(status_code=500, detail="Database not available")
      docs = db.cv.find().sort("created_at", -1).limit(1)
      items = [serialize(d) for d in docs]
      return items[0] if items else None
  \<close>
\<close>

definition get_cv :: "db \<Rightarrow> error + doc option" where
  "get_cv db =
     (case db of
        None \<Rightarrow> Inl (HTTPException 500 ''Database not available'')
      | Some s \<Rightarrow>
          (let docs = take 1 (sort_desc created_at_key (s ''cv''));
               items = map serialize docs
           in Inr (case items of [] \<Rightarrow> None | x # _ \<Rightarrow> Some x)))"

text \<open>
  \<^verbatim>\<open>
  def create_cv(payload: Cv):
      cv_id = create_document("cv", payload)
      created = db.cv.find_one({"_id": ObjectId(cv_id)})
      return serialize(created)
  \<close>
  Reading an attribute of \<^verbatim>\<open>db\<close> when it is \<^verbatim>\<open>None\<close> raises \<^verbatim>\<open>AttributeError\<close>.
\<close>

definition create_in :: "string \<Rightarrow> db \<Rightarrow> (string \<times> pyobject) list \<Rightarrow> ObjectId \<Rightarrow> datetime \<Rightarrow> (error + doc) \<times> db" where
  "create_in name db dump oid now =
     (case create_document db name dump oid now of
        (Inl e, db') \<Rightarrow> (Inl e, db')
      | (Inr new_id, db') \<Rightarrow>
          (case db' of
             None \<Rightarrow> (Inl AttributeError, db')
           | Some s \<Rightarrow>
               (case ObjectId_of_str new_id of
                  None \<Rightarrow> (Inl InvalidId, db')
                | Some oid' \<Rightarrow> (serialize_found (find_one (s name) oid'), db'))))"

definition create_cv :: "db \<Rightarrow> Cv \<Rightarrow> ObjectId \<Rightarrow> datetime \<Rightarrow> (error + doc) \<times> db" where
  "create_cv db payload oid now = create_in ''cv'' db (model_dump_Cv payload) oid now"

text \<open>
  \<^verbatim>\<open>
  def update_cv(cv_id: str, payload: Cv):
      if db is None:
          raise HTTPException(status_code=500, detail="Database not available")
      oid = to_object_id(cv_id)
      result = db.cv.update_one({"_id": oid}, {"$set": payload.model_dump()})
      if result.matched_count == 0:
          raise HTTPException(status_code=404, detail="CV not found")
      updated = db.cv.find_one({"_id": oid})
      return serialize(updated)
  \<close>
\<close>

definition update_in ::
    "string \<Rightarrow> string \<Rightarrow> store \<Rightarrow> ObjectId \<Rightarrow> (string \<times> pyobject) list \<Rightarrow> (error + doc) \<times> db" where
  "update_in name detail s oid dump =
     (case encode_items dump of
        None \<Rightarrow> (Inl InvalidDocument, Some s)
      | Some kvs \<Rightarrow>
          (case update_one (s name) oid kvs of
             (matched_count, coll') \<Rightarrow>
               (let s' = s(name := coll') in
                if matched_count = 0 then (Inl (HTTPException 404 detail), Some s')
                else (serialize_found (find_one (s' name) oid), Some s'))))"

definition update_cv :: "db \<Rightarrow> string \<Rightarrow> Cv \<Rightarrow> (error + doc) \<times> db" where
  "update_cv db cv_id payload =
     (case db of
        None \<Rightarrow> (Inl (HTTPException 500 ''Database not available''), db)
      | Some s \<Rightarrow>
          (case to_object_id cv_id of
             Inl e \<Rightarrow> (Inl e, db)
           | Inr oid \<Rightarrow> update_in ''cv'' ''CV not found'' s oid (model_dump_Cv payload)))"

text \<open>
  \<^verbatim>\<open>
  def delete_cv(cv_id: str):
      if db is None:
          raise HTTPException(status_code=500, detail="Database not available")
      oid = to_object_id(cv_id)
      result = db.cv.delete_one({"_id": oid})
      if result.deleted_count == 0:
          raise HTTPException(status_code=404, detail="CV not found")
      return {"status": "deleted", "id": cv_id}
  \<close>
\<close>

definition delete_in :: "string \<Rightarrow> string \<Rightarrow> store \<Rightarrow> ObjectId \<Rightarrow> string \<Rightarrow> (error + doc) \<times> db" where
  "delete_in name detail s oid id_str =
     (case delete_one (s name) oid of
        (deleted_count, coll') \<Rightarrow>
          (let s' = s(name := coll') in
           if deleted_count = 0 then (Inl (HTTPException 404 detail), Some s')
           else (Inr [''status'' \<mapsto> VStr ''deleted'', ''id'' \<mapsto> VStr id_str], Some s')))"

definition delete_cv :: "db \<Rightarrow> string \<Rightarrow> (error + doc) \<times> db" where
  "delete_cv db cv_id =
     (case db of
        None \<Rightarrow> (Inl (HTTPException 500 ''Database not available''), db)
      | Some s \<Rightarrow>
          (case to_object_id cv_id of
             Inl e \<Rightarrow> (Inl e, db)
           | Inr oid \<Rightarrow> delete_in ''cv'' ''CV not found'' s oid cv_id))"

subsection \<open>Project endpoints\<close>

text \<open>
  \<^verbatim>\<open>
  def list_projects(limit: int = 50):
      docs = get_documents("project", {}, limit)
      return [serialize(d) for d in docs]
  \<close>
  The query parameter is optional; its default is 50.
\<close>

definition list_projects :: "db \<Rightarrow> int option \<Rightarrow> error + doc list" where
  "list_projects db limit_param =
     (let limit = (case limit_param of None \<Rightarrow> 50 | Some n \<Rightarrow> n) in
      case get_documents db ''project'' [] limit of
        Inl e \<Rightarrow> Inl e
      | Inr docs \<Rightarrow> Inr (map serialize docs))"

text \<open>
  \<^verbatim>\<open>
  def create_project(payload: Project):
      proj_id = create_document("project", payload)
      created = db.project.find_one({"_id": ObjectId(proj_id)})
      return serialize(created)
  \<close>
\<close>

definition create_project :: "db \<Rightarrow> Project \<Rightarrow> ObjectId \<Rightarrow> datetime \<Rightarrow> (error + doc) \<times> db" where
  "create_project db payload oid now =
     create_in ''project'' db (model_dump_Project payload) oid now"

text \<open>
  \<^verbatim>\<open>
  def update_project(project_id: str, payload: Project):
      oid = to_object_id(project_id)
      result = db.project.update_one({"_id": oid}, {"$set": payload.model_dump()})
      if result.matched_count == 0:
          raise HTTPException(status_code=404, detail="Project not found")
      updated = db.project.find_one({"_id": oid})
      return serialize(updated)
  \<close>
  There is no test of \<^verbatim>\<open>db\<close> here: with \<^verbatim>\<open>db\<close> being \<^verbatim>\<open>None\<close>, \<^verbatim>\<open>db.project\<close> raises
  \<^verbatim>\<open>AttributeError\<close>.
\<close>

definition update_project :: "db \<Rightarrow> string \<Rightarrow> Project \<Rightarrow> (error + doc) \<times> db" where
  "update_project db project_id payload =
     (case to_object_id project_id of
        Inl e \<Rightarrow> (Inl e, db)
      | Inr oid \<Rightarrow>
          (case db of
             None \<Rightarrow> (Inl AttributeError, db)
           | Some s \<Rightarrow>
               update_in ''project'' ''Project not found'' s oid (model_dump_Project payload)))"

text \<open>
  \<^verbatim>\<open>
  def delete_project(project_id: str):
      oid = to_object_id(project_id)
      result = db.project.delete_one({"_id": oid})
      if result.deleted_count == 0:
          raise HTTPException(status_code=404, detail="Project not found")
      return {"status": "deleted", "id": project_id}
  \<close>
\<close>

definition delete_project :: "db \<Rightarrow> string \<Rightarrow> (error + doc) \<times> db" where
  "delete_project db project_id =
     (case to_object_id project_id of
        Inl e \<Rightarrow> (Inl e, db)
      | Inr oid \<Rightarrow>
          (case db of
             None \<Rightarrow> (Inl AttributeError, db)
           | Some s \<Rightarrow> delete_in ''project'' ''Project not found'' s oid project_id))"

subsection \<open>Routes with a request body\<close>

text \<open>
  A handler declared with \<^verbatim>\<open>payload: Cv\<close> or \<^verbatim>\<open>payload: Project\<close> runs only when the body
  validates; otherwise the framework answers with a validation error, status 422.
\<close>

definition post_cv :: "library \<Rightarrow> db \<Rightarrow> doc \<Rightarrow> ObjectId \<Rightarrow> datetime \<Rightarrow> (error + doc) \<times> db" where
  "post_cv lib db body oid now =
     (case validate_Cv lib body of
        Inl errs \<Rightarrow> (Inl (RequestValidationError errs), db)
      | Inr payload \<Rightarrow> create_cv db payload oid now)"

definition put_cv :: "library \<Rightarrow> db \<Rightarrow> string \<Rightarrow> doc \<Rightarrow> (error + doc) \<times> db" where
  "put_cv lib db cv_id body =
     (case validate_Cv lib body of
        Inl errs \<Rightarrow> (Inl (RequestValidationError errs), db)
      | Inr payload \<Rightarrow> update_cv db cv_id payload)"

definition post_project :: "library \<Rightarrow> db \<Rightarrow> doc \<Rightarrow> ObjectId \<Rightarrow> datetime \<Rightarrow> (error + doc) \<times> db" where
  "post_project lib db body oid now =
     (case validate_Project lib body of
        Inl errs \<Rightarrow> (Inl (RequestValidationError errs), db)
      | Inr payload \<Rightarrow> create_project db payload oid now)"

definition put_project :: "library \<Rightarrow> db \<Rightarrow> string \<Rightarrow> doc \<Rightarrow> (error + doc) \<times> db" where
  "put_project lib db project_id body =
     (case validate_Project lib body of
        Inl errs \<Rightarrow> (Inl (RequestValidationError errs), db)
      | Inr payload \<Rightarrow> update_project db project_id payload)"

section \<open>Properties of the serializer\<close>

lemma serialize_absent: "d ''_id'' = None \<Longrightarrow> serialize d = d"
  by (simp add: serialize_def)

lemma serialize_falsy: "d ''_id'' = Some v \<Longrightarrow> \<not> py_truthy v \<Longrightarrow> serialize d = d"
  by (simp add: serialize_def)

lemma serialize_truthy:
  "d ''_id'' = Some v \<Longrightarrow> py_truthy v \<Longrightarrow>
   serialize d = (d(''_id'' := None))(''id'' \<mapsto> VStr (py_str v))"
  by (simp add: serialize_def)

lemma serialize_twice: "serialize (serialize d) = serialize d"
proof (cases "d ''_id''")
  case None
  then show ?thesis by (simp add: serialize_absent)
next
  case (Some v)
  show ?thesis
  proof (cases "py_truthy v")
    case True
    have "serialize d ''_id'' = None"
      using Some True by (simp add: serialize_truthy)
    then show ?thesis by (rule serialize_absent)
  next
    case False
    then show ?thesis using Some by (simp add: serialize_falsy)
  qed
qed

text \<open>
  Claim C4. The serializer is idempotent, and it is the identity on every document that
  has no internal \<^verbatim>\<open>_id\<close> field.
\<close>

theorem serialize_idempotent_identity:
  "serialize (serialize d) = serialize d \<and> (d ''_id'' = None \<longrightarrow> serialize d = d)"
  by (simp add: serialize_twice serialize_absent)

theorem serialize_idempotent_identity_witness:
  "serialize (serialize [''title'' \<mapsto> VStr ''X'']) = serialize [''title'' \<mapsto> VStr ''X'']
   \<and> serialize [''title'' \<mapsto> VStr ''X''] = [''title'' \<mapsto> VStr ''X'']"
  using serialize_idempotent_identity [of "[''title'' \<mapsto> VStr ''X'']"] by simp

text \<open>
  Claim C10. When the \<^verbatim>\<open>_id\<close> field holds a falsy value (\<^verbatim>\<open>None\<close>, \<^verbatim>\<open>0\<close>,
  \<^verbatim>\<open>False\<close> or the empty string) the serializer returns the document as it is, with
  \<^verbatim>\<open>_id\<close> in place and no \<^verbatim>\<open>id\<close> key added; the rename to \<^verbatim>\<open>id\<close> happens exactly
  when the value is truthy.
\<close>

theorem serialize_falsy_id_kept:
  "d ''_id'' = Some v \<Longrightarrow>
     (v \<in> {VNone, VInt 0, VBool False, VStr ''''} \<longrightarrow> \<not> py_truthy v)
   \<and> (\<not> py_truthy v \<longrightarrow> serialize d = d \<and> serialize d ''_id'' = Some v \<and> serialize d ''id'' = d ''id'')
   \<and> (py_truthy v \<longrightarrow> serialize d ''_id'' = None \<and> serialize d ''id'' = Some (VStr (py_str v)))"
  by (auto simp: serialize_def)

theorem serialize_falsy_id_kept_witness:
  "serialize [''_id'' \<mapsto> VInt 0, ''title'' \<mapsto> VStr ''X''] = [''_id'' \<mapsto> VInt 0, ''title'' \<mapsto> VStr ''X'']
   \<and> serialize [''_id'' \<mapsto> VInt 0, ''title'' \<mapsto> VStr ''X''] ''id'' = None"
  using serialize_falsy_id_kept [of "[''_id'' \<mapsto> VInt 0, ''title'' \<mapsto> VStr ''X'']" "VInt 0"]
  by simp

section \<open>Identifiers\<close>

lemma length_hex_fixed: "length (hex_fixed k n) = k"
  by (induction k arbitrary: n) auto

lemma is_hex_hex_char: "m < 16 \<Longrightarrow> is_hex (hex_char m)"
  by (auto simp: is_hex_def hex_char_def Let_def)

lemma hex_val_hex_char: "m < 16 \<Longrightarrow> hex_val (hex_char m) = m"
  by (auto simp: hex_val_def hex_char_def Let_def)

lemma all_hex_hex_fixed: "list_all is_hex (hex_fixed k n)"
  by (induction k arbitrary: n) (auto simp: is_hex_hex_char)

lemma foldl_hex_fixed:
  "foldl (\<lambda>a c. 16 * a + hex_val c) a (hex_fixed k n) = a * 16 ^ k + n mod 16 ^ k"
proof (induction k arbitrary: n a)
  case 0
  then show ?case by simp
next
  case (Suc k)
  have split: "n mod (16 * 16 ^ k) = 16 * (n div 16 mod 16 ^ k) + n mod 16"
    by (rule mod_mult2_eq)
  have "foldl (\<lambda>a c. 16 * a + hex_val c) a (hex_fixed (Suc k) n)
      = 16 * (a * 16 ^ k + n div 16 mod 16 ^ k) + n mod 16"
    by (simp add: Suc hex_val_hex_char)
  also have "\<dots> = a * 16 ^ Suc k + n mod 16 ^ Suc k"
    using split by (simp add: algebra_simps)
  finally show ?case .
qed

lemma well_formed_str_ObjectId: "well_formed_id (str_ObjectId oid)"
  by (simp add: well_formed_id_def str_ObjectId_def length_hex_fixed all_hex_hex_fixed)

lemma ObjectId_roundtrip: "ObjectId_of_str (str_ObjectId oid) = Some oid"
proof -
  have "unat oid < 2 ^ 96"
    using unsigned_less [of oid, where 'a = nat] by simp
  then have "unat oid mod 16 ^ 24 = unat oid" by simp
  then have "foldl (\<lambda>a c. 16 * a + hex_val c) 0 (str_ObjectId oid) = unat oid"
    by (simp add: str_ObjectId_def foldl_hex_fixed)
  then show ?thesis
    by (simp add: ObjectId_of_str_def well_formed_str_ObjectId)
qed

lemma to_object_id_malformed:
  "\<not> well_formed_id i \<Longrightarrow> to_object_id i = Inl (HTTPException 400 ''Invalid ID format'')"
  by (simp add: to_object_id_def ObjectId_of_str_def)

lemma to_object_id_Some: "ObjectId_of_str i = Some oid \<Longrightarrow> to_object_id i = Inr oid"
  by (simp add: to_object_id_def)

lemma ObjectId_all_f: "ObjectId_of_str ''ffffffffffffffffffffffff'' = Some (- 1)"
  by (simp add: ObjectId_of_str_def well_formed_id_def is_hex_def hex_val_def)

lemma not_an_id: "\<not> well_formed_id ''not-an-id''"
  by (simp add: well_formed_id_def)

section \<open>Malformed and unknown identifiers\<close>

text \<open>
  Claim C2, as amended. For an identifier that is not well formed, PUT and DELETE on
  \<^verbatim>\<open>/api/projects/{id}\<close> answer 400 whatever the state of the store, and PUT and DELETE on
  \<^verbatim>\<open>/api/cv/{id}\<close> answer 400 when the store is available; when the store is unavailable
  the CV routes answer 500, because they test the store before they decode the
  identifier. The payload of a PUT is one that passed validation. No route changes the
  store.
\<close>

theorem malformed_id_400:
  "\<not> well_formed_id i \<Longrightarrow>
     update_cv (Some s) i p = (Inl (HTTPException 400 ''Invalid ID format''), Some s)
   \<and> delete_cv (Some s) i = (Inl (HTTPException 400 ''Invalid ID format''), Some s)
   \<and> update_project db i q = (Inl (HTTPException 400 ''Invalid ID format''), db)
   \<and> delete_project db i = (Inl (HTTPException 400 ''Invalid ID format''), db)
   \<and> update_cv None i p = (Inl (HTTPException 500 ''Database not available''), None)
   \<and> delete_cv None i = (Inl (HTTPException 500 ''Database not available''), None)"
  by (simp add: update_cv_def delete_cv_def update_project_def delete_project_def
      to_object_id_malformed)

theorem malformed_id_400_witness:
  "\<not> well_formed_id ''not-an-id''
   \<and> delete_cv (Some (\<lambda>name. [])) ''not-an-id''
       = (Inl (HTTPException 400 ''Invalid ID format''), Some (\<lambda>name. []))
   \<and> delete_project None ''not-an-id'' = (Inl (HTTPException 400 ''Invalid ID format''), None)"
  using malformed_id_400 [of "''not-an-id''" "\<lambda>name. []" _ None] not_an_id by simp

text \<open>
  The claim as stated fails when the store is unavailable: DELETE \<^verbatim>\<open>/api/cv/not-an-id\<close>
  answers 500.
\<close>

theorem malformed_id_unavailable_store_500:
  "\<not> well_formed_id ''not-an-id''
   \<and> response_status (fst (delete_cv None ''not-an-id'')) = 500
   \<and> response_status (fst (delete_cv None ''not-an-id'')) \<noteq> 400"
  by (simp add: well_formed_id_def response_status_def delete_cv_def)

lemma update_one_absent: "find_one coll oid = None \<Longrightarrow> update_one coll oid kvs = (0, coll)"
  by (induction coll) (auto simp: find_one_def split: if_splits)

lemma delete_one_absent: "find_one coll oid = None \<Longrightarrow> delete_one coll oid = (0, coll)"
  by (induction coll) (auto simp: find_one_def split: if_splits)

lemma encode_dump_Cv:
  "cv_website p = None \<Longrightarrow> cv_avatar_url p = None \<Longrightarrow>
   encode_items (model_dump_Cv p) = Some (storage_document (model_dump_Cv p))"
  by (simp add: model_dump_Cv_def dump_url_def storage_document_def)

lemma encode_dump_Project:
  "project_url q = None \<Longrightarrow> project_repo_url q = None \<Longrightarrow> project_image_url q = None \<Longrightarrow>
   encode_items (model_dump_Project q) = Some (storage_document (model_dump_Project q))"
  by (simp add: model_dump_Project_def dump_url_def storage_document_def)

lemma update_in_absent:
  "find_one (s name) oid = None \<Longrightarrow> encode_items dump = Some kvs \<Longrightarrow>
   update_in name detail s oid dump = (Inl (HTTPException 404 detail), Some s)"
  by (simp add: update_in_def update_one_absent)

lemma delete_in_absent:
  "find_one (s name) oid = None \<Longrightarrow>
   delete_in name detail s oid i = (Inl (HTTPException 404 detail), Some s)"
  by (simp add: delete_in_def delete_one_absent)

text \<open>
  Claim C3, as amended. For a well-formed identifier that matches no document of the
  collection: with the store available, DELETE answers 404 on the CV route and on the
  project route, and so does PUT when the validated payload holds no URL; with the store
  unavailable, PUT and DELETE on \<^verbatim>\<open>/api/cv/{id}\<close> answer 500, because they test the store
  first. In every case the store is left as it was.
\<close>

theorem absent_id_404:
  "ObjectId_of_str i = Some oid \<Longrightarrow>
     (find_one (s ''cv'') oid = None \<longrightarrow>
        delete_cv (Some s) i = (Inl (HTTPException 404 ''CV not found''), Some s)
      \<and> (cv_website p = None \<and> cv_avatar_url p = None \<longrightarrow>
           update_cv (Some s) i p = (Inl (HTTPException 404 ''CV not found''), Some s)))
   \<and> (find_one (s ''project'') oid = None \<longrightarrow>
        delete_project (Some s) i = (Inl (HTTPException 404 ''Project not found''), Some s)
      \<and> (project_url q = None \<and> project_repo_url q = None \<and> project_image_url q = None \<longrightarrow>
           update_project (Some s) i q
             = (Inl (HTTPException 404 ''Project not found''), Some s)))
   \<and> update_cv None i p = (Inl (HTTPException 500 ''Database not available''), None)
   \<and> delete_cv None i = (Inl (HTTPException 500 ''Database not available''), None)"
  by (simp add: update_cv_def delete_cv_def update_project_def delete_project_def
      to_object_id_Some update_in_absent delete_in_absent encode_dump_Cv encode_dump_Project)

theorem absent_id_404_witness:
  "ObjectId_of_str ''ffffffffffffffffffffffff'' = Some (- 1)
   \<and> find_one [] (- 1) = None
   \<and> delete_cv (Some (\<lambda>name. [])) ''ffffffffffffffffffffffff''
       = (Inl (HTTPException 404 ''CV not found''), Some (\<lambda>name. []))
   \<and> update_cv (Some (\<lambda>name. [])) ''ffffffffffffffffffffffff''
        \<lparr>cv_name = ''A'', cv_title = ''T'', cv_summary = None, cv_location = None, cv_email = None, cv_phone = None, cv_skills = [], cv_experience = [], cv_education = [], cv_website = None, cv_avatar_url = None\<rparr>
       = (Inl (HTTPException 404 ''CV not found''), Some (\<lambda>name. []))
   \<and> delete_project (Some (\<lambda>name. [])) ''ffffffffffffffffffffffff''
       = (Inl (HTTPException 404 ''Project not found''), Some (\<lambda>name. []))"
  using absent_id_404 [OF ObjectId_all_f, of "\<lambda>name. []"
      "\<lparr>cv_name = ''A'', cv_title = ''T'', cv_summary = None, cv_location = None, cv_email = None, cv_phone = None, cv_skills = [], cv_experience = [], cv_education = [], cv_website = None, cv_avatar_url = None\<rparr>"]
    ObjectId_all_f
  by (simp add: find_one_def)

text \<open>
  The claim as stated fails when the store is unavailable: for the well-formed identifier
  \<^verbatim>\<open>ffffffffffffffffffffffff\<close>, which matches no stored document, DELETE on the CV route
  answers 500.
\<close>

theorem absent_id_unavailable_store_500:
  "ObjectId_of_str ''ffffffffffffffffffffffff'' = Some (- 1)
   \<and> response_status (fst (delete_cv None ''ffffffffffffffffffffffff'')) = 500
   \<and> response_status (fst (delete_cv None ''ffffffffffffffffffffffff'')) \<noteq> 404"
  by (simp add: ObjectId_all_f response_status_def delete_cv_def)

section \<open>The unavailable store\<close>

text \<open>
  Claim C5 asks every route to fail with an explicit 500-class error when the store is
  unavailable. The CV routes do; the project routes PUT and DELETE have no such test.
  With a well-formed identifier they raise \<^verbatim>\<open>AttributeError\<close>, which no handler
  catches, and with a malformed one they answer 400.
\<close>

theorem project_routes_unguarded:
  "update_project None ''ffffffffffffffffffffffff'' q = (Inl AttributeError, None)
   \<and> delete_project None ''ffffffffffffffffffffffff'' = (Inl AttributeError, None)
   \<and> unhandled AttributeError
   \<and> delete_project None ''not-an-id'' = (Inl (HTTPException 400 ''Invalid ID format''), None)
   \<and> delete_cv None ''ffffffffffffffffffffffff''
       = (Inl (HTTPException 500 ''Database not available''), None)"
  by (simp add: update_project_def delete_project_def delete_cv_def to_object_id_Some
      ObjectId_all_f to_object_id_malformed not_an_id)

section \<open>Reading the most recent CV\<close>

lemma set_insert_desc: "set (insert_desc key x xs) = insert x (set xs)"
  by (induction xs) auto

lemma set_sort_desc: "set (sort_desc key xs) = set xs"
  by (induction xs) (auto simp: sort_desc_def set_insert_desc)

lemma sorted_insert_desc:
  "sorted_wrt (\<lambda>a b. key b \<le> key a) xs \<Longrightarrow>
   sorted_wrt (\<lambda>a b. key b \<le> key a) (insert_desc key x xs)"
  by (induction xs) (auto simp: set_insert_desc)

lemma sorted_sort_desc: "sorted_wrt (\<lambda>a b. key b \<le> key a) (sort_desc key xs)"
  by (induction xs) (auto simp: sort_desc_def sorted_insert_desc)

lemma sort_desc_head:
  assumes "xs \<noteq> []"
  shows "\<exists>d ds. sort_desc key xs = d # ds \<and> d \<in> set xs \<and> (\<forall>d' \<in> set xs. key d' \<le> key d)"
proof -
  have "set (sort_desc key xs) = set xs" by (rule set_sort_desc)
  with assms obtain d ds where eq: "sort_desc key xs = d # ds"
    by (cases "sort_desc key xs") auto
  have "sorted_wrt (\<lambda>a b. key b \<le> key a) (d # ds)"
    using sorted_sort_desc [of key xs] eq by simp
  then have "\<forall>d' \<in> set (d # ds). key d' \<le> key d" by auto
  moreover have "set (d # ds) = set xs" using set_sort_desc [of key xs] eq by simp
  ultimately show ?thesis using eq by auto
qed

text \<open>
  Claim C6. With the store available, GET \<^verbatim>\<open>/api/cv\<close> answers null when the collection is
  empty, and otherwise the serialized form of one document of the collection whose
  creation timestamp no other document exceeds.
\<close>

theorem get_cv_most_recent:
  "(s ''cv'' = [] \<longrightarrow> get_cv (Some s) = Inr None)
   \<and> (s ''cv'' \<noteq> [] \<longrightarrow>
        (\<exists>d \<in> set (s ''cv''). get_cv (Some s) = Inr (Some (serialize d))
           \<and> (\<forall>d' \<in> set (s ''cv''). created_at_key d' \<le> created_at_key d)))"
proof (intro conjI impI)
  assume "s ''cv'' = []"
  then show "get_cv (Some s) = Inr None"
    by (simp add: get_cv_def sort_desc_def)
next
  assume "s ''cv'' \<noteq> []"
  then obtain d ds where eq: "sort_desc created_at_key (s ''cv'') = d # ds"
    and mem: "d \<in> set (s ''cv'')"
    and top: "\<forall>d' \<in> set (s ''cv''). created_at_key d' \<le> created_at_key d"
    using sort_desc_head [of "s ''cv''" created_at_key] by blast
  have "get_cv (Some s) = Inr (Some (serialize d))"
    using eq by (simp add: get_cv_def)
  with mem top show "\<exists>d \<in> set (s ''cv''). get_cv (Some s) = Inr (Some (serialize d))
           \<and> (\<forall>d' \<in> set (s ''cv''). created_at_key d' \<le> created_at_key d)"
    by blast
qed

theorem get_cv_most_recent_witness:
  "[[''_id'' \<mapsto> VObjectId 1, ''created_at'' \<mapsto> VDatetime (2024, 1, 1, 0, 0, 0, 0)],
    [''_id'' \<mapsto> VObjectId 2, ''created_at'' \<mapsto> VDatetime (2024, 6, 1, 0, 0, 0, 0)]] \<noteq> []
   \<and> get_cv (Some (\<lambda>name.
        [[''_id'' \<mapsto> VObjectId 1, ''created_at'' \<mapsto> VDatetime (2024, 1, 1, 0, 0, 0, 0)],
         [''_id'' \<mapsto> VObjectId 2, ''created_at'' \<mapsto> VDatetime (2024, 6, 1, 0, 0, 0, 0)]]))
     = Inr (Some (serialize
         [''_id'' \<mapsto> VObjectId 2, ''created_at'' \<mapsto> VDatetime (2024, 6, 1, 0, 0, 0, 0)]))
   \<and> (\<exists>d \<in> set [[''_id'' \<mapsto> VObjectId 1, ''created_at'' \<mapsto> VDatetime (2024, 1, 1, 0, 0, 0, 0)],
                  [''_id'' \<mapsto> VObjectId 2, ''created_at'' \<mapsto> VDatetime (2024, 6, 1, 0, 0, 0, 0)]].
         get_cv (Some (\<lambda>name.
           [[''_id'' \<mapsto> VObjectId 1, ''created_at'' \<mapsto> VDatetime (2024, 1, 1, 0, 0, 0, 0)],
            [''_id'' \<mapsto> VObjectId 2, ''created_at'' \<mapsto> VDatetime (2024, 6, 1, 0, 0, 0, 0)]]))
         = Inr (Some (serialize d))
       \<and> (\<forall>d' \<in> set [[''_id'' \<mapsto> VObjectId 1, ''created_at'' \<mapsto> VDatetime (2024, 1, 1, 0, 0, 0, 0)],
                  [''_id'' \<mapsto> VObjectId 2, ''created_at'' \<mapsto> VDatetime (2024, 6, 1, 0, 0, 0, 0)]].
            created_at_key d' \<le> created_at_key d))"
  (is "?xs \<noteq> [] \<and> ?ev \<and> ?ex")
proof -
  have ne: "?xs \<noteq> []" by simp
  have ex: ?ex
    using get_cv_most_recent [of "\<lambda>name. ?xs"] ne by blast
  have ev: ?ev
    by (simp add: get_cv_def sort_desc_def created_at_key_def)
  from ne ev ex show ?thesis by blast
qed

section \<open>Listing projects\<close>

text \<open>
  Claim C9. Without a limit parameter the listing is the listing with limit 50; with a
  limit \<open>n \<ge> 0\<close> every answer has at most \<open>n\<close> documents, and with the store available
  there is such an answer.
\<close>

theorem list_projects_limit:
  "list_projects db None = list_projects db (Some 50)
   \<and> (0 \<le> n \<longrightarrow>
        (\<forall>docs. list_projects db (Some n) = Inr docs \<longrightarrow> length docs \<le> nat n)
      \<and> (\<exists>docs. list_projects (Some s) (Some n) = Inr docs \<and> length docs \<le> nat n))"
  by (auto simp: list_projects_def get_documents_def split: option.splits)

theorem list_projects_limit_witness:
  "(0::int) \<le> 1
   \<and> list_projects (Some (\<lambda>name. [[''title'' \<mapsto> VStr ''A''], [''title'' \<mapsto> VStr ''B'']])) (Some 1)
       = Inr [[''title'' \<mapsto> VStr ''A'']]
   \<and> length [[''title'' \<mapsto> VStr ''A'']] \<le> nat 1"
  using list_projects_limit [of "Some (\<lambda>name. [[''title'' \<mapsto> VStr ''A''], [''title'' \<mapsto> VStr ''B'']])" 1]
  by (simp add: list_projects_def get_documents_def matches_def serialize_def)

section \<open>Creating and deleting a project\<close>

lemma find_one_append_fresh:
  "find_one coll oid = None \<Longrightarrow> has_id oid d \<Longrightarrow> find_one (coll @ [d]) oid = Some d"
  by (induction coll) (auto simp: find_one_def split: if_splits)

lemma delete_one_append_fresh:
  "find_one coll oid = None \<Longrightarrow> has_id oid d \<Longrightarrow> delete_one (coll @ [d]) oid = (1, coll)"
  by (induction coll) (auto simp: find_one_def split: if_splits)

lemma validate_Project_title_only:
  "validate_Project lib [''title'' \<mapsto> VStr t] =
     Inr \<lparr>project_title = t, project_description = None, project_tech_stack = [],
          project_url = None, project_repo_url = None, project_image_url = None,
          project_featured = False\<rparr>"
  by (simp add: validate_Project_def required_def with_default_def str_field_def field_error_def)

lemma create_in_fresh:
  assumes "find_one (s name) oid = None"
  shows "create_in name (Some s) dump oid now =
     (Inr (serialize ((map_of (storage_document dump))
             (''created_at'' \<mapsto> VDatetime now, ''_id'' \<mapsto> VObjectId oid))),
      Some (s(name := s name @
         [(map_of (storage_document dump))
            (''created_at'' \<mapsto> VDatetime now, ''_id'' \<mapsto> VObjectId oid)])))"
proof -
  let ?d = "(map_of (storage_document dump))
      (''created_at'' \<mapsto> VDatetime now, ''_id'' \<mapsto> VObjectId oid)"
  have "has_id oid ?d"
    by (simp add: has_id_def)
  then have "find_one (s name @ [?d]) oid = Some ?d"
    using assms by (rule find_one_append_fresh [rotated])
  then show ?thesis
    by (simp add: create_in_def create_document_def ObjectId_roundtrip serialize_found_def)
qed

text \<open>
  Claim C8. Starting from any available store in which the identifier the store assigns
  is not yet used, POST \<^verbatim>\<open>/api/projects\<close> with body \<^verbatim>\<open>{"title": "X"}\<close> succeeds with a body
  that has title \<^verbatim>\<open>"X"\<close>, the empty \<^verbatim>\<open>tech_stack\<close>, \<^verbatim>\<open>featured\<close> false and a \<^verbatim>\<open>id\<close> of
  24 hexadecimal characters; DELETE with that id answers
  \<^verbatim>\<open>{"status": "deleted", "id": id}\<close> and restores the store; a second DELETE answers 404.
\<close>

theorem project_create_delete_scenario:
  assumes "find_one (s ''project'') oid = None"
  shows "\<exists>body s1.
      post_project lib (Some s) [''title'' \<mapsto> VStr ''X''] oid now = (Inr body, Some s1)
    \<and> body ''title'' = Some (VStr ''X'')
    \<and> body ''tech_stack'' = Some (VList [])
    \<and> body ''featured'' = Some (VBool False)
    \<and> body ''id'' = Some (VStr (str_ObjectId oid))
    \<and> well_formed_id (str_ObjectId oid)
    \<and> delete_project (Some s1) (str_ObjectId oid)
        = (Inr [''status'' \<mapsto> VStr ''deleted'', ''id'' \<mapsto> VStr (str_ObjectId oid)], Some s)
    \<and> delete_project (Some s) (str_ObjectId oid)
        = (Inl (HTTPException 404 ''Project not found''), Some s)"
proof -
  let ?p = "\<lparr>project_title = ''X'', project_description = None, project_tech_stack = [],
          project_url = None, project_repo_url = None, project_image_url = None,
          project_featured = False\<rparr>"
  let ?d = "(map_of (storage_document (model_dump_Project ?p)))
      (''created_at'' \<mapsto> VDatetime now, ''_id'' \<mapsto> VObjectId oid)"
  let ?s1 = "s(''project'' := s ''project'' @ [?d])"
  have post: "post_project lib (Some s) [''title'' \<mapsto> VStr ''X''] oid now
      = (Inr (serialize ?d), Some ?s1)"
    using create_in_fresh [of s "''project''" oid "model_dump_Project ?p" now] assms
    by (simp add: post_project_def validate_Project_title_only create_project_def)
  have ser: "serialize ?d = (?d(''_id'' := None))(''id'' \<mapsto> VStr (str_ObjectId oid))"
    by (simp add: serialize_def)
  have fields: "serialize ?d ''title'' = Some (VStr ''X'')"
    "serialize ?d ''tech_stack'' = Some (VList [])"
    "serialize ?d ''featured'' = Some (VBool False)"
    "serialize ?d ''id'' = Some (VStr (str_ObjectId oid))"
    unfolding ser by (simp_all add: model_dump_Project_def storage_document_def dump_url_def)
  have hid: "has_id oid ?d" by (simp add: has_id_def)
  have del1: "delete_project (Some ?s1) (str_ObjectId oid)
        = (Inr [''status'' \<mapsto> VStr ''deleted'', ''id'' \<mapsto> VStr (str_ObjectId oid)], Some s)"
    using delete_one_append_fresh [OF assms hid]
    by (simp add: delete_project_def to_object_id_def ObjectId_roundtrip delete_in_def)
  have del2: "delete_project (Some s) (str_ObjectId oid)
        = (Inl (HTTPException 404 ''Project not found''), Some s)"
    using delete_one_absent [OF assms]
    by (simp add: delete_project_def to_object_id_def ObjectId_roundtrip delete_in_def)
  show ?thesis
    using post fields well_formed_str_ObjectId [of oid] del1 del2 by blast
qed




theorem project_create_delete_scenario_witness:
  "find_one [] (1 :: ObjectId) = None
   \<and> (\<exists>body s1.
        post_project \<lparr>lax_bool = (\<lambda>v. None), email_str = Some, http_url = Some\<rparr>
          (Some (\<lambda>name. [])) [''title'' \<mapsto> VStr ''X''] 1 (2024, 1, 1, 0, 0, 0, 0)
          = (Inr body, Some s1)
      \<and> body ''title'' = Some (VStr ''X'')
      \<and> body ''id'' = Some (VStr (str_ObjectId 1))
      \<and> delete_project (Some s1) (str_ObjectId 1)
          = (Inr [''status'' \<mapsto> VStr ''deleted'', ''id'' \<mapsto> VStr (str_ObjectId 1)],
             Some (\<lambda>name. []))
      \<and> delete_project (Some (\<lambda>name. [])) (str_ObjectId 1)
          = (Inl (HTTPException 404 ''Project not found''), Some (\<lambda>name. [])))"
proof -
  have h: "find_one ((\<lambda>name. []) ''project'') (1 :: ObjectId) = None"
    by (simp add: find_one_def)
  have "find_one [] (1 :: ObjectId) = None"
    by (simp add: find_one_def)
  moreover from project_create_delete_scenario [OF h,
        of "\<lparr>lax_bool = (\<lambda>v. None), email_str = Some, http_url = Some\<rparr>" "(2024, 1, 1, 0, 0, 0, 0)"]
  obtain body s1 where
    "post_project \<lparr>lax_bool = (\<lambda>v. None), email_str = Some, http_url = Some\<rparr>
          (Some (\<lambda>name. [])) [''title'' \<mapsto> VStr ''X''] 1 (2024, 1, 1, 0, 0, 0, 0)
          = (Inr body, Some s1)"
    "body ''title'' = Some (VStr ''X'')"
    "body ''id'' = Some (VStr (str_ObjectId 1))"
    "delete_project (Some s1) (str_ObjectId 1)
          = (Inr [''status'' \<mapsto> VStr ''deleted'', ''id'' \<mapsto> VStr (str_ObjectId 1)],
             Some (\<lambda>name. []))"
    "delete_project (Some (\<lambda>name. [])) (str_ObjectId 1)
          = (Inl (HTTPException 404 ''Project not found''), Some (\<lambda>name. []))"
    by blast
  ultimately show ?thesis by blast
qed

section \<open>Updating a document\<close>

lemma update_one_found:
  "find_one coll oid = Some d \<Longrightarrow> map_of kvs ''_id'' = None \<Longrightarrow>
   \<exists>coll'. update_one coll oid kvs = (1, coll') \<and> find_one coll' oid = Some (d ++ map_of kvs)"
proof (induction coll)
  case Nil
  then show ?case by (simp add: find_one_def)
next
  case (Cons x xs)
  show ?case
  proof (cases "has_id oid x")
    case True
    with Cons.prems have "x = d" by (simp add: find_one_def)
    moreover have "has_id oid (d ++ map_of kvs)"
      using True \<open>x = d\<close> Cons.prems(2) by (simp add: has_id_def map_add_def)
    ultimately show ?thesis using True by (simp add: find_one_def)
  next
    case False
    with Cons.prems have "find_one xs oid = Some d" by (simp add: find_one_def)
    from Cons.IH [OF this Cons.prems(2)] obtain coll' where
      "update_one xs oid kvs = (1, coll')" "find_one coll' oid = Some (d ++ map_of kvs)"
      by blast
    then show ?thesis using False by (simp add: find_one_def)
  qed
qed

lemma update_in_found:
  assumes enc: "encode_items dump = Some kvs"
    and found: "find_one (s name) oid = Some d"
    and no_id: "map_of kvs ''_id'' = None"
  shows "\<exists>s'. update_in name detail s oid dump = (Inr (serialize (d ++ map_of kvs)), Some s')
     \<and> find_one (s' name) oid = Some (d ++ map_of kvs)"
proof -
  from update_one_found [OF found no_id] obtain coll' where
    u: "update_one (s name) oid kvs = (1, coll')"
    and f: "find_one coll' oid = Some (d ++ map_of kvs)"
    by blast
  have "update_in name detail s oid dump
      = (Inr (serialize (d ++ map_of kvs)), Some (s(name := coll')))"
    using enc u f by (simp add: update_in_def serialize_found_def)
  moreover have "find_one ((s(name := coll')) name) oid = Some (d ++ map_of kvs)"
    using f by simp
  ultimately show ?thesis by blast
qed

lemma storage_keys_Cv: "map fst (storage_document (model_dump_Cv p)) = Cv_fields"
  by (simp add: model_dump_Cv_def Cv_fields_def storage_document_def)

lemma storage_keys_Project: "map fst (storage_document (model_dump_Project q)) = Project_fields"
  by (simp add: model_dump_Project_def Project_fields_def storage_document_def)

lemma map_add_dump:
  assumes "map fst kvs = names"
  shows "(d ++ map_of kvs) k = (if k \<in> set names then map_of kvs k else d k)"
    and "k \<in> set names \<Longrightarrow> map_of kvs k \<noteq> None"
proof -
  have dom: "dom (map_of kvs) = set names"
    using assms by (simp add: dom_map_of_conv_image_fst flip: set_map)
  show "(d ++ map_of kvs) k = (if k \<in> set names then map_of kvs k else d k)"
    using dom by (auto simp: map_add_def split: option.splits)
  show "k \<in> set names \<Longrightarrow> map_of kvs k \<noteq> None"
    using dom by auto
qed

lemma update_in_sets_fields:
  assumes enc: "encode_items dump = Some kvs"
    and found: "find_one (s name) oid = Some d"
    and no_id: "map_of kvs ''_id'' = None"
    and keys: "map fst kvs = names"
  shows "\<exists>d' s'. update_in name detail s oid dump = (Inr (serialize d'), Some s')
     \<and> find_one (s' name) oid = Some d'
     \<and> (\<forall>k \<in> set names. d' k = map_of kvs k \<and> d' k \<noteq> None)
     \<and> (\<forall>k. k \<notin> set names \<longrightarrow> d' k = d k)"
proof -
  let ?d' = "d ++ map_of kvs"
  from update_in_found [where s = s and name = name and detail = detail, OF enc found no_id]
  obtain s' where
    upd: "update_in name detail s oid dump = (Inr (serialize ?d'), Some s')"
    and fnd: "find_one (s' name) oid = Some ?d'"
    by blast
  have inside: "\<forall>k \<in> set names. ?d' k = map_of kvs k \<and> ?d' k \<noteq> None"
  proof
    fix k assume "k \<in> set names"
    then show "?d' k = map_of kvs k \<and> ?d' k \<noteq> None"
      using map_add_dump(1) [OF keys, of d k] map_add_dump(2) [OF keys, of k] by simp
  qed
  have outside: "\<forall>k. k \<notin> set names \<longrightarrow> ?d' k = d k"
  proof (intro allI impI)
    fix k assume "k \<notin> set names"
    then show "?d' k = d k"
      using map_add_dump(1) [OF keys, of d k] by simp
  qed
  show ?thesis
    by (rule exI [of _ ?d'], rule exI [of _ s']) (intro conjI upd fnd inside outside)
qed

text \<open>
  A body that validates has its required fields, and a field it omits has the default of
  the model in the dump of the validated payload.
\<close>

lemma validate_Cv_record:
  assumes "validate_Cv lib body = Inr p"
  shows "p = \<lparr>cv_name = the (required str_field (body ''name'')),
      cv_title = the (required str_field (body ''title'')),
      cv_summary = the (with_default None (optional str_field) (body ''summary'')),
      cv_location = the (with_default None (optional str_field) (body ''location'')),
      cv_email = the (with_default None (optional (email_field lib)) (body ''email'')),
      cv_phone = the (with_default None (optional str_field) (body ''phone'')),
      cv_skills = the (with_default [] (list_of str_field) (body ''skills'')),
      cv_experience =
        the (with_default [] (list_of (nested validate_ExperienceItem)) (body ''experience'')),
      cv_education =
        the (with_default [] (list_of (nested validate_EducationItem)) (body ''education'')),
      cv_website = the (with_default None (optional (url_field lib)) (body ''website'')),
      cv_avatar_url = the (with_default None (optional (url_field lib)) (body ''avatar_url''))\<rparr>"
  using assms unfolding validate_Cv_def Let_def by (simp split: if_splits)

lemma validate_Project_record:
  assumes "validate_Project lib body = Inr q"
  shows "q = \<lparr>project_title = the (required str_field (body ''title'')),
      project_description = the (with_default None (optional str_field) (body ''description'')),
      project_tech_stack = the (with_default [] (list_of str_field) (body ''tech_stack'')),
      project_url = the (with_default None (optional (url_field lib)) (body ''url'')),
      project_repo_url = the (with_default None (optional (url_field lib)) (body ''repo_url'')),
      project_image_url = the (with_default None (optional (url_field lib)) (body ''image_url'')),
      project_featured = the (with_default False (lax_bool lib) (body ''featured''))\<rparr>"
  using assms unfolding validate_Project_def Let_def by (simp split: if_splits)

lemma Cv_omitted_summary:
  assumes "validate_Cv lib body = Inr p" and "body ''summary'' = None"
  shows "map_of (storage_document (model_dump_Cv p)) ''summary'' = map_of Cv_defaults ''summary''"
proof -
  have "cv_summary p = None"
    using assms(2) by (subst validate_Cv_record [OF assms(1)]) (simp add: with_default_def)
  then show ?thesis
    by (simp add: model_dump_Cv_def storage_document_def Cv_defaults_def dump_opt_def
        dump_url_def)
qed

lemma Cv_omitted_location:
  assumes "validate_Cv lib body = Inr p" and "body ''location'' = None"
  shows "map_of (storage_document (model_dump_Cv p)) ''location'' = map_of Cv_defaults ''location''"
proof -
  have "cv_location p = None"
    using assms(2) by (subst validate_Cv_record [OF assms(1)]) (simp add: with_default_def)
  then show ?thesis
    by (simp add: model_dump_Cv_def storage_document_def Cv_defaults_def dump_opt_def
        dump_url_def)
qed

lemma Cv_omitted_email:
  assumes "validate_Cv lib body = Inr p" and "body ''email'' = None"
  shows "map_of (storage_document (model_dump_Cv p)) ''email'' = map_of Cv_defaults ''email''"
proof -
  have "cv_email p = None"
    using assms(2) by (subst validate_Cv_record [OF assms(1)]) (simp add: with_default_def)
  then show ?thesis
    by (simp add: model_dump_Cv_def storage_document_def Cv_defaults_def dump_opt_def
        dump_url_def)
qed

lemma Cv_omitted_phone:
  assumes "validate_Cv lib body = Inr p" and "body ''phone'' = None"
  shows "map_of (storage_document (model_dump_Cv p)) ''phone'' = map_of Cv_defaults ''phone''"
proof -
  have "cv_phone p = None"
    using assms(2) by (subst validate_Cv_record [OF assms(1)]) (simp add: with_default_def)
  then show ?thesis
    by (simp add: model_dump_Cv_def storage_document_def Cv_defaults_def dump_opt_def
        dump_url_def)
qed

lemma Cv_omitted_skills:
  assumes "validate_Cv lib body = Inr p" and "body ''skills'' = None"
  shows "map_of (storage_document (model_dump_Cv p)) ''skills'' = map_of Cv_defaults ''skills''"
proof -
  have "cv_skills p = []"
    using assms(2) by (subst validate_Cv_record [OF assms(1)]) (simp add: with_default_def)
  then show ?thesis
    by (simp add: model_dump_Cv_def storage_document_def Cv_defaults_def dump_opt_def
        dump_url_def)
qed

lemma Cv_omitted_experience:
  assumes "validate_Cv lib body = Inr p" and "body ''experience'' = None"
  shows "map_of (storage_document (model_dump_Cv p)) ''experience'' = map_of Cv_defaults ''experience''"
proof -
  have "cv_experience p = []"
    using assms(2) by (subst validate_Cv_record [OF assms(1)]) (simp add: with_default_def)
  then show ?thesis
    by (simp add: model_dump_Cv_def storage_document_def Cv_defaults_def dump_opt_def
        dump_url_def)
qed

lemma Cv_omitted_education:
  assumes "validate_Cv lib body = Inr p" and "body ''education'' = None"
  shows "map_of (storage_document (model_dump_Cv p)) ''education'' = map_of Cv_defaults ''education''"
proof -
  have "cv_education p = []"
    using assms(2) by (subst validate_Cv_record [OF assms(1)]) (simp add: with_default_def)
  then show ?thesis
    by (simp add: model_dump_Cv_def storage_document_def Cv_defaults_def dump_opt_def
        dump_url_def)
qed

lemma Cv_omitted_website:
  assumes "validate_Cv lib body = Inr p" and "body ''website'' = None"
  shows "map_of (storage_document (model_dump_Cv p)) ''website'' = map_of Cv_defaults ''website''"
proof -
  have "cv_website p = None"
    using assms(2) by (subst validate_Cv_record [OF assms(1)]) (simp add: with_default_def)
  then show ?thesis
    by (simp add: model_dump_Cv_def storage_document_def Cv_defaults_def dump_opt_def
        dump_url_def)
qed

lemma Cv_omitted_avatar_url:
  assumes "validate_Cv lib body = Inr p" and "body ''avatar_url'' = None"
  shows "map_of (storage_document (model_dump_Cv p)) ''avatar_url'' = map_of Cv_defaults ''avatar_url''"
proof -
  have "cv_avatar_url p = None"
    using assms(2) by (subst validate_Cv_record [OF assms(1)]) (simp add: with_default_def)
  then show ?thesis
    by (simp add: model_dump_Cv_def storage_document_def Cv_defaults_def dump_opt_def
        dump_url_def)
qed

lemma validate_Cv_omitted:
  assumes "validate_Cv lib body = Inr p" and "k \<in> set (map fst Cv_defaults)"
    and "body k = None"
  shows "map_of (storage_document (model_dump_Cv p)) k = map_of Cv_defaults k"
proof -
  from assms(2) have "k = ''summary'' \<or> k = ''location'' \<or> k = ''email'' \<or> k = ''phone'' \<or> k = ''skills'' \<or> k = ''experience'' \<or> k = ''education'' \<or> k = ''website'' \<or> k = ''avatar_url''"
    by (auto simp: Cv_defaults_def)
  then show ?thesis
    using assms(1,3)
    by (elim disjE) (simp_all only: Cv_omitted_summary Cv_omitted_location Cv_omitted_email Cv_omitted_phone Cv_omitted_skills Cv_omitted_experience Cv_omitted_education Cv_omitted_website Cv_omitted_avatar_url)
qed

lemma Project_omitted_description:
  assumes "validate_Project lib body = Inr q" and "body ''description'' = None"
  shows "map_of (storage_document (model_dump_Project q)) ''description'' = map_of Project_defaults ''description''"
proof -
  have "project_description q = None"
    using assms(2) by (subst validate_Project_record [OF assms(1)]) (simp add: with_default_def)
  then show ?thesis
    by (simp add: model_dump_Project_def storage_document_def Project_defaults_def dump_opt_def
        dump_url_def)
qed

lemma Project_omitted_tech_stack:
  assumes "validate_Project lib body = Inr q" and "body ''tech_stack'' = None"
  shows "map_of (storage_document (model_dump_Project q)) ''tech_stack'' = map_of Project_defaults ''tech_stack''"
proof -
  have "project_tech_stack q = []"
    using assms(2) by (subst validate_Project_record [OF assms(1)]) (simp add: with_default_def)
  then show ?thesis
    by (simp add: model_dump_Project_def storage_document_def Project_defaults_def dump_opt_def
        dump_url_def)
qed

lemma Project_omitted_url:
  assumes "validate_Project lib body = Inr q" and "body ''url'' = None"
  shows "map_of (storage_document (model_dump_Project q)) ''url'' = map_of Project_defaults ''url''"
proof -
  have "project_url q = None"
    using assms(2) by (subst validate_Project_record [OF assms(1)]) (simp add: with_default_def)
  then show ?thesis
    by (simp add: model_dump_Project_def storage_document_def Project_defaults_def dump_opt_def
        dump_url_def)
qed

lemma Project_omitted_repo_url:
  assumes "validate_Project lib body = Inr q" and "body ''repo_url'' = None"
  shows "map_of (storage_document (model_dump_Project q)) ''repo_url'' = map_of Project_defaults ''repo_url''"
proof -
  have "project_repo_url q = None"
    using assms(2) by (subst validate_Project_record [OF assms(1)]) (simp add: with_default_def)
  then show ?thesis
    by (simp add: model_dump_Project_def storage_document_def Project_defaults_def dump_opt_def
        dump_url_def)
qed

lemma Project_omitted_image_url:
  assumes "validate_Project lib body = Inr q" and "body ''image_url'' = None"
  shows "map_of (storage_document (model_dump_Project q)) ''image_url'' = map_of Project_defaults ''image_url''"
proof -
  have "project_image_url q = None"
    using assms(2) by (subst validate_Project_record [OF assms(1)]) (simp add: with_default_def)
  then show ?thesis
    by (simp add: model_dump_Project_def storage_document_def Project_defaults_def dump_opt_def
        dump_url_def)
qed

lemma Project_omitted_featured:
  assumes "validate_Project lib body = Inr q" and "body ''featured'' = None"
  shows "map_of (storage_document (model_dump_Project q)) ''featured'' = map_of Project_defaults ''featured''"
proof -
  have "project_featured q = False"
    using assms(2) by (subst validate_Project_record [OF assms(1)]) (simp add: with_default_def)
  then show ?thesis
    by (simp add: model_dump_Project_def storage_document_def Project_defaults_def dump_opt_def
        dump_url_def)
qed

lemma validate_Project_omitted:
  assumes "validate_Project lib body = Inr q" and "k \<in> set (map fst Project_defaults)"
    and "body k = None"
  shows "map_of (storage_document (model_dump_Project q)) k = map_of Project_defaults k"
proof -
  from assms(2) have "k = ''description'' \<or> k = ''tech_stack'' \<or> k = ''url'' \<or> k = ''repo_url'' \<or> k = ''image_url'' \<or> k = ''featured''"
    by (auto simp: Project_defaults_def)
  then show ?thesis
    using assms(1,3)
    by (elim disjE) (simp_all only: Project_omitted_description Project_omitted_tech_stack Project_omitted_url Project_omitted_repo_url Project_omitted_image_url Project_omitted_featured)
qed

lemma defaults_in_fields:
  "set (map fst Cv_defaults) \<subseteq> set Cv_fields"
  "set (map fst Project_defaults) \<subseteq> set Project_fields"
  by (auto simp: Cv_defaults_def Cv_fields_def Project_defaults_def Project_fields_def)

text \<open>
  A payload that holds a URL cannot be written: the dump carries the URL object, and the
  driver refuses to encode it.
\<close>

lemma update_cv_with_url:
  "ObjectId_of_str i = Some oid \<Longrightarrow> cv_website p = Some u \<Longrightarrow>
   update_cv (Some s) i p = (Inl InvalidDocument, Some s)"
  by (simp add: update_cv_def to_object_id_Some update_in_def model_dump_Cv_def dump_url_def)

lemma update_project_with_url:
  "ObjectId_of_str i = Some oid \<Longrightarrow> project_url q = Some u \<Longrightarrow>
   update_project (Some s) i q = (Inl InvalidDocument, Some s)"
  by (simp add: update_project_def to_object_id_Some update_in_def model_dump_Project_def
      dump_url_def)

text \<open>
  Claim C1, as amended. When the identifier matches a stored document, the body validates
  and the validated payload holds no URL, PUT on \<^verbatim>\<open>/api/cv/{id}\<close> and on
  \<^verbatim>\<open>/api/projects/{id}\<close> sets every field of the model in that document to the value the
  field has in the validated payload, which for a field the body omits is the default of
  the model; it leaves every field outside the model (such as \<^verbatim>\<open>_id\<close> and
  \<^verbatim>\<open>created_at\<close>) unchanged, and answers with the serialized document.
\<close>

theorem put_sets_model_fields:
  assumes "ObjectId_of_str i = Some oid"
  shows "(find_one (s ''cv'') oid = Some d \<and> validate_Cv lib body = Inr p
        \<and> cv_website p = None \<and> cv_avatar_url p = None \<longrightarrow>
      (\<exists>d' s' kvs. put_cv lib (Some s) i body = (Inr (serialize d'), Some s')
         \<and> find_one (s' ''cv'') oid = Some d'
         \<and> encode_items (model_dump_Cv p) = Some kvs
         \<and> (\<forall>k \<in> set Cv_fields. d' k = map_of kvs k \<and> d' k \<noteq> None)
         \<and> (\<forall>k \<in> set (map fst Cv_defaults). body k = None \<longrightarrow> d' k = map_of Cv_defaults k)
         \<and> (\<forall>k. k \<notin> set Cv_fields \<longrightarrow> d' k = d k)))
    \<and> (find_one (s ''project'') oid = Some d \<and> validate_Project lib body = Inr q
        \<and> project_url q = None \<and> project_repo_url q = None \<and> project_image_url q = None \<longrightarrow>
      (\<exists>d' s' kvs. put_project lib (Some s) i body = (Inr (serialize d'), Some s')
         \<and> find_one (s' ''project'') oid = Some d'
         \<and> encode_items (model_dump_Project q) = Some kvs
         \<and> (\<forall>k \<in> set Project_fields. d' k = map_of kvs k \<and> d' k \<noteq> None)
         \<and> (\<forall>k \<in> set (map fst Project_defaults).
               body k = None \<longrightarrow> d' k = map_of Project_defaults k)
         \<and> (\<forall>k. k \<notin> set Project_fields \<longrightarrow> d' k = d k)))"
proof (intro conjI impI)
  assume h: "find_one (s ''cv'') oid = Some d \<and> validate_Cv lib body = Inr p
        \<and> cv_website p = None \<and> cv_avatar_url p = None"
  let ?kvs = "storage_document (model_dump_Cv p)"
  have found: "find_one (s ''cv'') oid = Some d" and v: "validate_Cv lib body = Inr p"
    using h by simp_all
  have enc: "encode_items (model_dump_Cv p) = Some ?kvs"
    using h by (simp add: encode_dump_Cv)
  have no_id: "map_of ?kvs ''_id'' = None"
    by (simp add: model_dump_Cv_def storage_document_def)
  have eq: "put_cv lib (Some s) i body
      = update_in ''cv'' ''CV not found'' s oid (model_dump_Cv p)"
    using assms v by (simp add: put_cv_def update_cv_def to_object_id_Some)
  from update_in_sets_fields [where s = s and name = "''cv''" and detail = "''CV not found''",
      OF enc found no_id storage_keys_Cv]
  obtain d' s' where
    r: "update_in ''cv'' ''CV not found'' s oid (model_dump_Cv p) = (Inr (serialize d'), Some s')"
    and f: "find_one (s' ''cv'') oid = Some d'"
    and inside: "\<forall>k \<in> set Cv_fields. d' k = map_of ?kvs k \<and> d' k \<noteq> None"
    and outside: "\<forall>k. k \<notin> set Cv_fields \<longrightarrow> d' k = d k"
    by blast
  have omitted: "\<forall>k \<in> set (map fst Cv_defaults). body k = None \<longrightarrow> d' k = map_of Cv_defaults k"
  proof (intro ballI impI)
    fix k assume k: "k \<in> set (map fst Cv_defaults)" and none: "body k = None"
    from k have "k \<in> set Cv_fields" using defaults_in_fields(1) by blast
    with inside have "d' k = map_of ?kvs k" by blast
    then show "d' k = map_of Cv_defaults k"
      using validate_Cv_omitted [OF v k none] by simp
  qed
  show "\<exists>d' s' kvs. put_cv lib (Some s) i body = (Inr (serialize d'), Some s')
         \<and> find_one (s' ''cv'') oid = Some d'
         \<and> encode_items (model_dump_Cv p) = Some kvs
         \<and> (\<forall>k \<in> set Cv_fields. d' k = map_of kvs k \<and> d' k \<noteq> None)
         \<and> (\<forall>k \<in> set (map fst Cv_defaults). body k = None \<longrightarrow> d' k = map_of Cv_defaults k)
         \<and> (\<forall>k. k \<notin> set Cv_fields \<longrightarrow> d' k = d k)"
    unfolding eq
    by (rule exI [of _ d'], rule exI [of _ s'], rule exI [of _ ?kvs])
      (intro conjI r f enc inside omitted outside)
next
  assume h: "find_one (s ''project'') oid = Some d \<and> validate_Project lib body = Inr q
        \<and> project_url q = None \<and> project_repo_url q = None \<and> project_image_url q = None"
  let ?kvs = "storage_document (model_dump_Project q)"
  have found: "find_one (s ''project'') oid = Some d"
    and v: "validate_Project lib body = Inr q"
    using h by simp_all
  have enc: "encode_items (model_dump_Project q) = Some ?kvs"
    using h by (simp add: encode_dump_Project)
  have no_id: "map_of ?kvs ''_id'' = None"
    by (simp add: model_dump_Project_def storage_document_def)
  have eq: "put_project lib (Some s) i body
      = update_in ''project'' ''Project not found'' s oid (model_dump_Project q)"
    using assms v by (simp add: put_project_def update_project_def to_object_id_Some)
  from update_in_sets_fields [where s = s and name = "''project''"
      and detail = "''Project not found''", OF enc found no_id storage_keys_Project]
  obtain d' s' where
    r: "update_in ''project'' ''Project not found'' s oid (model_dump_Project q)
        = (Inr (serialize d'), Some s')"
    and f: "find_one (s' ''project'') oid = Some d'"
    and inside: "\<forall>k \<in> set Project_fields. d' k = map_of ?kvs k \<and> d' k \<noteq> None"
    and outside: "\<forall>k. k \<notin> set Project_fields \<longrightarrow> d' k = d k"
    by blast
  have omitted: "\<forall>k \<in> set (map fst Project_defaults).
      body k = None \<longrightarrow> d' k = map_of Project_defaults k"
  proof (intro ballI impI)
    fix k assume k: "k \<in> set (map fst Project_defaults)" and none: "body k = None"
    from k have "k \<in> set Project_fields" using defaults_in_fields(2) by blast
    with inside have "d' k = map_of ?kvs k" by blast
    then show "d' k = map_of Project_defaults k"
      using validate_Project_omitted [OF v k none] by simp
  qed
  show "\<exists>d' s' kvs. put_project lib (Some s) i body = (Inr (serialize d'), Some s')
         \<and> find_one (s' ''project'') oid = Some d'
         \<and> encode_items (model_dump_Project q) = Some kvs
         \<and> (\<forall>k \<in> set Project_fields. d' k = map_of kvs k \<and> d' k \<noteq> None)
         \<and> (\<forall>k \<in> set (map fst Project_defaults).
               body k = None \<longrightarrow> d' k = map_of Project_defaults k)
         \<and> (\<forall>k. k \<notin> set Project_fields \<longrightarrow> d' k = d k)"
    unfolding eq
    by (rule exI [of _ d'], rule exI [of _ s'], rule exI [of _ ?kvs])
      (intro conjI r f enc inside omitted outside)
qed

lemma ObjectId_one: "ObjectId_of_str ''000000000000000000000001'' = Some 1"
  by (simp add: ObjectId_of_str_def well_formed_id_def is_hex_def hex_val_def)

lemma validate_Cv_name_title:
  "validate_Cv \<lparr>lax_bool = (\<lambda>v. None), email_str = Some, http_url = Some\<rparr> [''name'' \<mapsto> VStr ''A'', ''title'' \<mapsto> VStr ''T''] = Inr \<lparr>cv_name = ''A'', cv_title = ''T'', cv_summary = None, cv_location = None, cv_email = None, cv_phone = None, cv_skills = [], cv_experience = [], cv_education = [], cv_website = None, cv_avatar_url = None\<rparr>"
  by (simp add: validate_Cv_def required_def with_default_def str_field_def field_error_def)

theorem put_sets_model_fields_witness:
  "ObjectId_of_str ''000000000000000000000001'' = Some 1
   \<and> (find_one [[''_id'' \<mapsto> VObjectId 1, ''name'' \<mapsto> VStr ''Old'', ''title'' \<mapsto> VStr ''Old'', ''summary'' \<mapsto> VStr ''S'']] 1 = Some [''_id'' \<mapsto> VObjectId 1, ''name'' \<mapsto> VStr ''Old'', ''title'' \<mapsto> VStr ''Old'', ''summary'' \<mapsto> VStr ''S'']
      \<and> validate_Cv \<lparr>lax_bool = (\<lambda>v. None), email_str = Some, http_url = Some\<rparr> [''name'' \<mapsto> VStr ''A'', ''title'' \<mapsto> VStr ''T''] = Inr \<lparr>cv_name = ''A'', cv_title = ''T'', cv_summary = None, cv_location = None, cv_email = None, cv_phone = None, cv_skills = [], cv_experience = [], cv_education = [], cv_website = None, cv_avatar_url = None\<rparr>
      \<and> cv_website \<lparr>cv_name = ''A'', cv_title = ''T'', cv_summary = None, cv_location = None, cv_email = None, cv_phone = None, cv_skills = [], cv_experience = [], cv_education = [], cv_website = None, cv_avatar_url = None\<rparr> = None
      \<and> cv_avatar_url \<lparr>cv_name = ''A'', cv_title = ''T'', cv_summary = None, cv_location = None, cv_email = None, cv_phone = None, cv_skills = [], cv_experience = [], cv_education = [], cv_website = None, cv_avatar_url = None\<rparr> = None)
   \<and> (\<exists>d' s' kvs. put_cv \<lparr>lax_bool = (\<lambda>v. None), email_str = Some, http_url = Some\<rparr> (Some (\<lambda>name. [[''_id'' \<mapsto> VObjectId 1, ''name'' \<mapsto> VStr ''Old'', ''title'' \<mapsto> VStr ''Old'', ''summary'' \<mapsto> VStr ''S'']])) ''000000000000000000000001'' [''name'' \<mapsto> VStr ''A'', ''title'' \<mapsto> VStr ''T''] = (Inr (serialize d'), Some s')
         \<and> find_one (s' ''cv'') 1 = Some d'
         \<and> encode_items (model_dump_Cv \<lparr>cv_name = ''A'', cv_title = ''T'', cv_summary = None, cv_location = None, cv_email = None, cv_phone = None, cv_skills = [], cv_experience = [], cv_education = [], cv_website = None, cv_avatar_url = None\<rparr>) = Some kvs
         \<and> (\<forall>k \<in> set Cv_fields. d' k = map_of kvs k \<and> d' k \<noteq> None)
         \<and> (\<forall>k \<in> set (map fst Cv_defaults).
               [''name'' \<mapsto> VStr ''A'', ''title'' \<mapsto> VStr ''T''] k = None \<longrightarrow> d' k = map_of Cv_defaults k)
         \<and> (\<forall>k. k \<notin> set Cv_fields \<longrightarrow> d' k = [''_id'' \<mapsto> VObjectId 1, ''name'' \<mapsto> VStr ''Old'', ''title'' \<mapsto> VStr ''Old'', ''summary'' \<mapsto> VStr ''S''] k))"
  (is "?a \<and> ?b \<and> ?c")
proof -
  have b: ?b
    by (simp add: find_one_def has_id_def validate_Cv_name_title)
  have c: ?c
    using put_sets_model_fields [OF ObjectId_one, of "\<lambda>name. [[''_id'' \<mapsto> VObjectId 1, ''name'' \<mapsto> VStr ''Old'', ''title'' \<mapsto> VStr ''Old'', ''summary'' \<mapsto> VStr ''S'']]" "[''_id'' \<mapsto> VObjectId 1, ''name'' \<mapsto> VStr ''Old'', ''title'' \<mapsto> VStr ''Old'', ''summary'' \<mapsto> VStr ''S'']" "\<lparr>lax_bool = (\<lambda>v. None), email_str = Some, http_url = Some\<rparr>" "[''name'' \<mapsto> VStr ''A'', ''title'' \<mapsto> VStr ''T'']" "\<lparr>cv_name = ''A'', cv_title = ''T'', cv_summary = None, cv_location = None, cv_email = None, cv_phone = None, cv_skills = [], cv_experience = [], cv_education = [], cv_website = None, cv_avatar_url = None\<rparr>"] b
    by blast
  from ObjectId_one b c show ?thesis by blast
qed

text \<open>
  The claim as stated fails: a PUT whose body supplies only \<^verbatim>\<open>name\<close> and \<^verbatim>\<open>title\<close>
  replaces the stored \<^verbatim>\<open>summary\<close> by \<^verbatim>\<open>None\<close>, the default of the model.
\<close>

theorem update_overwrites_omitted_field:
  "[''name'' \<mapsto> VStr ''A'', ''title'' \<mapsto> VStr ''T''] ''summary'' = None
   \<and> [''_id'' \<mapsto> VObjectId 1, ''name'' \<mapsto> VStr ''Old'', ''title'' \<mapsto> VStr ''Old'', ''summary'' \<mapsto> VStr ''S''] ''summary'' = Some (VStr ''S'')
   \<and> (case put_cv \<lparr>lax_bool = (\<lambda>v. None), email_str = Some, http_url = Some\<rparr> (Some (\<lambda>name. [[''_id'' \<mapsto> VObjectId 1, ''name'' \<mapsto> VStr ''Old'', ''title'' \<mapsto> VStr ''Old'', ''summary'' \<mapsto> VStr ''S'']])) ''000000000000000000000001'' [''name'' \<mapsto> VStr ''A'', ''title'' \<mapsto> VStr ''T''] of
         (Inr r, Some s') \<Rightarrow>
            r ''summary'' = Some VNone \<and> map (\<lambda>x. x ''summary'') (s' ''cv'') = [Some VNone]
       | _ \<Rightarrow> False)"
proof -
  let ?kvs = "storage_document (model_dump_Cv \<lparr>cv_name = ''A'', cv_title = ''T'', cv_summary = None, cv_location = None, cv_email = None, cv_phone = None, cv_skills = [], cv_experience = [], cv_education = [], cv_website = None, cv_avatar_url = None\<rparr>)"
  have enc: "encode_items (model_dump_Cv \<lparr>cv_name = ''A'', cv_title = ''T'', cv_summary = None, cv_location = None, cv_email = None, cv_phone = None, cv_skills = [], cv_experience = [], cv_education = [], cv_website = None, cv_avatar_url = None\<rparr>) = Some ?kvs"
    by (simp add: encode_dump_Cv)
  have i: "([''_id'' \<mapsto> VObjectId 1, ''name'' \<mapsto> VStr ''Old'', ''title'' \<mapsto> VStr ''Old'', ''summary'' \<mapsto> VStr ''S''] ++ map_of ?kvs) ''_id'' = Some (VObjectId 1)"
    by (simp add: model_dump_Cv_def storage_document_def map_add_def)
  have s: "([''_id'' \<mapsto> VObjectId 1, ''name'' \<mapsto> VStr ''Old'', ''title'' \<mapsto> VStr ''Old'', ''summary'' \<mapsto> VStr ''S''] ++ map_of ?kvs) ''summary'' = Some VNone"
    by (simp add: model_dump_Cv_def storage_document_def dump_opt_def map_add_def)
  have u: "update_cv (Some (\<lambda>name. [[''_id'' \<mapsto> VObjectId 1, ''name'' \<mapsto> VStr ''Old'', ''title'' \<mapsto> VStr ''Old'', ''summary'' \<mapsto> VStr ''S'']])) ''000000000000000000000001'' \<lparr>cv_name = ''A'', cv_title = ''T'', cv_summary = None, cv_location = None, cv_email = None, cv_phone = None, cv_skills = [], cv_experience = [], cv_education = [], cv_website = None, cv_avatar_url = None\<rparr>
     = (Inr (serialize ([''_id'' \<mapsto> VObjectId 1, ''name'' \<mapsto> VStr ''Old'', ''title'' \<mapsto> VStr ''Old'', ''summary'' \<mapsto> VStr ''S''] ++ map_of ?kvs)),
        Some ((\<lambda>name. [[''_id'' \<mapsto> VObjectId 1, ''name'' \<mapsto> VStr ''Old'', ''title'' \<mapsto> VStr ''Old'', ''summary'' \<mapsto> VStr ''S'']])(''cv'' := [[''_id'' \<mapsto> VObjectId 1, ''name'' \<mapsto> VStr ''Old'', ''title'' \<mapsto> VStr ''Old'', ''summary'' \<mapsto> VStr ''S''] ++ map_of ?kvs])))"
    using i
    by (simp add: update_cv_def to_object_id_def ObjectId_one update_in_def enc has_id_def
        find_one_def serialize_found_def)
  have r: "serialize ([''_id'' \<mapsto> VObjectId 1, ''name'' \<mapsto> VStr ''Old'', ''title'' \<mapsto> VStr ''Old'', ''summary'' \<mapsto> VStr ''S''] ++ map_of ?kvs) ''summary'' = Some VNone"
    using s i by (simp add: serialize_def)
  show ?thesis
    by (simp add: put_cv_def validate_Cv_name_title u r s)
qed

section \<open>Validation against the field tables\<close>

lemma field_error_Nil: "(field_error name r = []) = (r \<noteq> None)"
  by (cases r) (simp_all add: field_error_def)

lemma those_map_None: "(those (map f xs) = None) = (\<exists>x \<in> set xs. f x = None)"
  by (induction xs) (auto split: option.splits)

lemma required_str:
  "(required str_field x = None)
   = (x = None \<or> x = Some VNone \<or> malformed item lib TStr x)"
proof (cases x)
  case None
  then show ?thesis by (simp add: required_def)
next
  case (Some v)
  then show ?thesis by (cases v) (simp_all add: required_def str_field_def malformed_def)
qed

lemma default_opt_str:
  "(with_default dflt (optional str_field) x = None) = malformed item lib (TOptional TStr) x"
proof (cases x)
  case None
  then show ?thesis by (simp add: with_default_def malformed_def)
next
  case (Some v)
  then show ?thesis
    by (cases v) (simp_all add: with_default_def optional_def str_field_def malformed_def)
qed

lemma default_opt_email:
  "(with_default dflt (optional (email_field lib)) x = None)
   = malformed item lib (TOptional TEmail) x"
proof (cases x)
  case None
  then show ?thesis by (simp add: with_default_def malformed_def)
next
  case (Some v)
  then show ?thesis
    by (cases v) (simp_all add: with_default_def optional_def email_field_def malformed_def)
qed

lemma default_opt_url:
  "(with_default dflt (optional (url_field lib)) x = None)
   = malformed item lib (TOptional TUrl) x"
proof (cases x)
  case None
  then show ?thesis by (simp add: with_default_def malformed_def)
next
  case (Some v)
  then show ?thesis
    by (cases v) (simp_all add: with_default_def optional_def url_field_def malformed_def)
qed

lemma default_bool:
  "(with_default dflt (lax_bool lib) x = None) = malformed item lib TBool x"
  by (cases x) (simp_all add: with_default_def malformed_def)

lemma default_list:
  assumes "\<And>v. (f v = None) = (\<not> well_formed item lib t v)"
  shows "(with_default dflt (list_of f) x = None) = malformed item lib (TList t) x"
proof (cases x)
  case None
  then show ?thesis by (simp add: with_default_def malformed_def)
next
  case (Some v)
  then show ?thesis
    by (cases v)
      (auto simp: with_default_def list_of_def malformed_def those_map_None assms list_all_iff)
qed

lemma str_field_wf: "(str_field v = None) = (\<not> well_formed item lib TStr v)"
  by (cases v) (simp_all add: str_field_def)

lemmas default_list_str = default_list [where f = str_field and t = TStr, OF str_field_wf]

lemma isl_validate_ExperienceItem:
  "isl (validate_ExperienceItem body)
   = violates item lib [''role'', ''company'', ''start_date''] ExperienceItem_schema body"
  unfolding validate_ExperienceItem_def Let_def violates_def ExperienceItem_schema_def
  by (simp add: field_error_Nil required_str [where item = item and lib = lib]
      default_opt_str [where item = item and lib = lib])

lemma isl_validate_EducationItem:
  "isl (validate_EducationItem body)
   = violates item lib [''school'', ''degree''] EducationItem_schema body"
  unfolding validate_EducationItem_def Let_def violates_def EducationItem_schema_def
  by (simp add: field_error_Nil required_str [where item = item and lib = lib]
      default_opt_str [where item = item and lib = lib])


lemma nested_ExperienceItem_wf:
  "(nested validate_ExperienceItem v = None)
   = (\<not> well_formed (item_ok lib) lib TExperienceItem v)"
proof (cases v)
  case (VDict kvs)
  have "isl (validate_ExperienceItem (map_of kvs))
      = violates (\<lambda>t b. False) lib [''role'', ''company'', ''start_date'']
          ExperienceItem_schema (map_of kvs)"
    by (rule isl_validate_ExperienceItem)
  then show ?thesis
    using VDict by (cases "validate_ExperienceItem (map_of kvs)") (simp_all add: nested_def item_ok_def)
qed (simp_all add: nested_def)

lemma nested_EducationItem_wf:
  "(nested validate_EducationItem v = None)
   = (\<not> well_formed (item_ok lib) lib TEducationItem v)"
proof (cases v)
  case (VDict kvs)
  have "isl (validate_EducationItem (map_of kvs))
      = violates (\<lambda>t b. False) lib [''school'', ''degree''] EducationItem_schema (map_of kvs)"
    by (rule isl_validate_EducationItem)
  then show ?thesis
    using VDict by (cases "validate_EducationItem (map_of kvs)") (simp_all add: nested_def item_ok_def)
qed (simp_all add: nested_def)

lemmas default_list_experience =
  default_list [where f = "nested validate_ExperienceItem" and t = TExperienceItem,
    OF nested_ExperienceItem_wf]

lemmas default_list_education =
  default_list [where f = "nested validate_EducationItem" and t = TEducationItem,
    OF nested_EducationItem_wf]

lemma isl_validate_Project:
  "isl (validate_Project lib body)
   = violates (item_ok lib) lib [''title''] Project_schema body"
  unfolding validate_Project_def Let_def violates_def Project_schema_def
  by (simp add: field_error_Nil required_str [where item = "item_ok lib" and lib = lib]
      default_opt_str [where item = "item_ok lib" and lib = lib]
      default_opt_url [where item = "item_ok lib"]
      default_bool [where item = "item_ok lib"]
      default_list_str [where item = "item_ok lib" and lib = lib])

lemma isl_validate_Cv:
  "isl (validate_Cv lib body)
   = violates (item_ok lib) lib [''name'', ''title''] Cv_schema body"
  unfolding validate_Cv_def Let_def violates_def Cv_schema_def
  by (simp add: field_error_Nil required_str [where item = "item_ok lib" and lib = lib]
      default_opt_str [where item = "item_ok lib" and lib = lib]
      default_opt_url [where item = "item_ok lib"]
      default_opt_email [where item = "item_ok lib"]
      default_list_str [where item = "item_ok lib" and lib = lib]
      default_list_experience [where lib = lib]
      default_list_education [where lib = lib])


lemma unknown_field_Cv:
  assumes "k \<notin> set (map fst Cv_schema)"
  shows "validate_Cv lib (body(k \<mapsto> v)) = validate_Cv lib body"
proof -
  have eqs:
    "(body(k \<mapsto> v)) ''name'' = body ''name''"
    "(body(k \<mapsto> v)) ''title'' = body ''title''"
    "(body(k \<mapsto> v)) ''summary'' = body ''summary''"
    "(body(k \<mapsto> v)) ''location'' = body ''location''"
    "(body(k \<mapsto> v)) ''email'' = body ''email''"
    "(body(k \<mapsto> v)) ''phone'' = body ''phone''"
    "(body(k \<mapsto> v)) ''skills'' = body ''skills''"
    "(body(k \<mapsto> v)) ''experience'' = body ''experience''"
    "(body(k \<mapsto> v)) ''education'' = body ''education''"
    "(body(k \<mapsto> v)) ''website'' = body ''website''"
    "(body(k \<mapsto> v)) ''avatar_url'' = body ''avatar_url''"
    using assms by (auto simp: Cv_schema_def)
  show ?thesis
    unfolding validate_Cv_def eqs ..
qed

lemma unknown_field_Project:
  assumes "k \<notin> set (map fst Project_schema)"
  shows "validate_Project lib (body(k \<mapsto> v)) = validate_Project lib body"
proof -
  have eqs:
    "(body(k \<mapsto> v)) ''title'' = body ''title''"
    "(body(k \<mapsto> v)) ''description'' = body ''description''"
    "(body(k \<mapsto> v)) ''tech_stack'' = body ''tech_stack''"
    "(body(k \<mapsto> v)) ''url'' = body ''url''"
    "(body(k \<mapsto> v)) ''repo_url'' = body ''repo_url''"
    "(body(k \<mapsto> v)) ''image_url'' = body ''image_url''"
    "(body(k \<mapsto> v)) ''featured'' = body ''featured''"
    using assms by (auto simp: Project_schema_def)
  show ?thesis
    unfolding validate_Project_def eqs ..
qed

lemma unknown_field_ExperienceItem:
  assumes "k \<notin> set (map fst ExperienceItem_schema)"
  shows "validate_ExperienceItem (body(k \<mapsto> v)) = validate_ExperienceItem body"
proof -
  have eqs:
    "(body(k \<mapsto> v)) ''role'' = body ''role''"
    "(body(k \<mapsto> v)) ''company'' = body ''company''"
    "(body(k \<mapsto> v)) ''start_date'' = body ''start_date''"
    "(body(k \<mapsto> v)) ''end_date'' = body ''end_date''"
    "(body(k \<mapsto> v)) ''description'' = body ''description''"
    using assms by (auto simp: ExperienceItem_schema_def)
  show ?thesis
    unfolding validate_ExperienceItem_def eqs ..
qed

lemma unknown_field_EducationItem:
  assumes "k \<notin> set (map fst EducationItem_schema)"
  shows "validate_EducationItem (body(k \<mapsto> v)) = validate_EducationItem body"
proof -
  have eqs:
    "(body(k \<mapsto> v)) ''school'' = body ''school''"
    "(body(k \<mapsto> v)) ''degree'' = body ''degree''"
    "(body(k \<mapsto> v)) ''start_year'' = body ''start_year''"
    "(body(k \<mapsto> v)) ''end_year'' = body ''end_year''"
    using assms by (auto simp: EducationItem_schema_def)
  show ?thesis
    unfolding validate_EducationItem_def eqs ..
qed

lemma response_status_simps:
  "response_status (Inl e) = http_status e"
  "response_status (Inr x) = 200"
  by (simp_all add: response_status_def)

lemma serialize_found_status: "response_status (serialize_found r) \<noteq> 422"
  by (cases r) (simp_all add: serialize_found_def response_status_simps)

lemma create_in_status: "response_status (fst (create_in name db dump oid now)) \<noteq> 422"
  by (cases db)
    (simp_all add: create_in_def create_document_def response_status_simps
      serialize_found_status ObjectId_roundtrip)

lemma update_in_status: "response_status (fst (update_in name detail s oid dump)) \<noteq> 422"
proof (cases "encode_items dump")
  case None
  then show ?thesis by (simp add: update_in_def response_status_simps)
next
  case (Some kvs)
  then show ?thesis
    by (cases "update_one (s name) oid kvs")
      (simp add: update_in_def Let_def serialize_found_status response_status_simps)
qed

lemma to_object_id_status: "to_object_id i = Inl e \<Longrightarrow> http_status e = 400"
  by (auto simp: to_object_id_def split: option.splits)

lemma update_cv_status: "response_status (fst (update_cv db i p)) \<noteq> 422"
proof (cases db)
  case None
  then show ?thesis by (simp add: update_cv_def response_status_simps)
next
  case (Some s)
  show ?thesis
  proof (cases "to_object_id i")
    case (Inl e)
    then show ?thesis
      using Some to_object_id_status [OF Inl]
      by (simp add: update_cv_def response_status_simps)
  next
    case (Inr oid)
    then show ?thesis
      using Some by (simp add: update_cv_def update_in_status)
  qed
qed

lemma update_project_status: "response_status (fst (update_project db i q)) \<noteq> 422"
proof (cases "to_object_id i")
  case (Inl e)
  then show ?thesis
    using to_object_id_status [OF Inl]
    by (simp add: update_project_def response_status_simps)
next
  case (Inr oid)
  then show ?thesis
    by (cases db) (simp_all add: update_project_def update_in_status response_status_simps)
qed

lemma body_routes_Cv:
  "response_status (fst (post_cv lib db body oid now)) = 422 \<longleftrightarrow> isl (validate_Cv lib body)"
  "response_status (fst (put_cv lib db i body)) = 422 \<longleftrightarrow> isl (validate_Cv lib body)"
  by (cases "validate_Cv lib body";
      simp add: post_cv_def put_cv_def create_cv_def create_in_status update_cv_status
        response_status_simps)+

lemma body_routes_Project:
  "response_status (fst (post_project lib db body oid now)) = 422
     \<longleftrightarrow> isl (validate_Project lib body)"
  "response_status (fst (put_project lib db i body)) = 422 \<longleftrightarrow> isl (validate_Project lib body)"
  by (cases "validate_Project lib body";
      simp add: post_project_def put_project_def create_project_def create_in_status
        update_project_status response_status_simps)+


text \<open>
  Claim C7. A write route answers 422 exactly when the body violates the model of the
  route: a required field (CV: \<^verbatim>\<open>name\<close>, \<^verbatim>\<open>title\<close>; Project: \<^verbatim>\<open>title\<close>) is absent or null,
  or a field that is present holds a value that is malformed for its type. A nested entry
  is rejected exactly when it violates its own model (ExperienceItem: \<^verbatim>\<open>role\<close>,
  \<^verbatim>\<open>company\<close>, \<^verbatim>\<open>start_date\<close>; EducationItem: \<^verbatim>\<open>school\<close>, \<^verbatim>\<open>degree\<close>). A field that the
  model does not list changes nothing in the outcome of validation.
\<close>

theorem validation_rejects_exactly:
  "(response_status (fst (post_cv lib db body oid now)) = 422
      \<longleftrightarrow> violates (item_ok lib) lib [''name'', ''title''] Cv_schema body)
   \<and> (response_status (fst (put_cv lib db i body)) = 422
      \<longleftrightarrow> violates (item_ok lib) lib [''name'', ''title''] Cv_schema body)
   \<and> (response_status (fst (post_project lib db body oid now)) = 422
      \<longleftrightarrow> violates (item_ok lib) lib [''title''] Project_schema body)
   \<and> (response_status (fst (put_project lib db i body)) = 422
      \<longleftrightarrow> violates (item_ok lib) lib [''title''] Project_schema body)
   \<and> (isl (validate_ExperienceItem body)
      \<longleftrightarrow> violates (\<lambda>t b. False) lib [''role'', ''company'', ''start_date'']
            ExperienceItem_schema body)
   \<and> (isl (validate_EducationItem body)
      \<longleftrightarrow> violates (\<lambda>t b. False) lib [''school'', ''degree''] EducationItem_schema body)
   \<and> (k \<notin> set (map fst Cv_schema) \<longrightarrow>
        validate_Cv lib (body(k \<mapsto> v)) = validate_Cv lib body)
   \<and> (k \<notin> set (map fst Project_schema) \<longrightarrow>
        validate_Project lib (body(k \<mapsto> v)) = validate_Project lib body)
   \<and> (k \<notin> set (map fst ExperienceItem_schema) \<longrightarrow>
        validate_ExperienceItem (body(k \<mapsto> v)) = validate_ExperienceItem body)
   \<and> (k \<notin> set (map fst EducationItem_schema) \<longrightarrow>
        validate_EducationItem (body(k \<mapsto> v)) = validate_EducationItem body)"
proof (intro conjI impI)
  show "response_status (fst (post_cv lib db body oid now)) = 422
      \<longleftrightarrow> violates (item_ok lib) lib [''name'', ''title''] Cv_schema body"
    by (simp only: body_routes_Cv isl_validate_Cv)
  show "response_status (fst (put_cv lib db i body)) = 422
      \<longleftrightarrow> violates (item_ok lib) lib [''name'', ''title''] Cv_schema body"
    by (simp only: body_routes_Cv isl_validate_Cv)
  show "response_status (fst (post_project lib db body oid now)) = 422
      \<longleftrightarrow> violates (item_ok lib) lib [''title''] Project_schema body"
    by (simp only: body_routes_Project isl_validate_Project)
  show "response_status (fst (put_project lib db i body)) = 422
      \<longleftrightarrow> violates (item_ok lib) lib [''title''] Project_schema body"
    by (simp only: body_routes_Project isl_validate_Project)
  show "isl (validate_ExperienceItem body)
      \<longleftrightarrow> violates (\<lambda>t b. False) lib [''role'', ''company'', ''start_date'']
            ExperienceItem_schema body"
    by (rule isl_validate_ExperienceItem)
  show "isl (validate_EducationItem body)
      \<longleftrightarrow> violates (\<lambda>t b. False) lib [''school'', ''degree''] EducationItem_schema body"
    by (rule isl_validate_EducationItem)
next
  assume "k \<notin> set (map fst Cv_schema)"
  then show "validate_Cv lib (body(k \<mapsto> v)) = validate_Cv lib body"
    by (rule unknown_field_Cv)
next
  assume "k \<notin> set (map fst Project_schema)"
  then show "validate_Project lib (body(k \<mapsto> v)) = validate_Project lib body"
    by (rule unknown_field_Project)
next
  assume "k \<notin> set (map fst ExperienceItem_schema)"
  then show "validate_ExperienceItem (body(k \<mapsto> v)) = validate_ExperienceItem body"
    by (rule unknown_field_ExperienceItem)
next
  assume "k \<notin> set (map fst EducationItem_schema)"
  then show "validate_EducationItem (body(k \<mapsto> v)) = validate_EducationItem body"
    by (rule unknown_field_EducationItem)
qed

theorem validation_rejects_exactly_witness:
  "''extra'' \<notin> set (map fst Project_schema)
   \<and> validate_Project \<lparr>lax_bool = (\<lambda>v. None), email_str = Some, http_url = Some\<rparr>
        ([''title'' \<mapsto> VStr ''X''](''extra'' \<mapsto> VInt 1))
     = validate_Project \<lparr>lax_bool = (\<lambda>v. None), email_str = Some, http_url = Some\<rparr>
        [''title'' \<mapsto> VStr ''X'']
   \<and> violates (item_ok \<lparr>lax_bool = (\<lambda>v. None), email_str = Some, http_url = Some\<rparr>)
        \<lparr>lax_bool = (\<lambda>v. None), email_str = Some, http_url = Some\<rparr> [''title'']
        Project_schema [''description'' \<mapsto> VStr ''d'']
   \<and> response_status (fst (post_project
        \<lparr>lax_bool = (\<lambda>v. None), email_str = Some, http_url = Some\<rparr> None
        [''description'' \<mapsto> VStr ''d''] 1 (2024, 1, 1, 0, 0, 0, 0))) = 422"
  (is "?a \<and> ?b \<and> ?c \<and> ?d")
proof -
  have a: ?a by (simp add: Project_schema_def)
  have c: ?c by (simp add: violates_def)
  have b: ?b
    using validation_rejects_exactly [where k = "''extra''"
        and lib = "\<lparr>lax_bool = (\<lambda>v. None), email_str = Some, http_url = Some\<rparr>"
        and body = "[''title'' \<mapsto> VStr ''X'']" and v = "VInt 1"] a
    by blast
  have d: ?d
    using validation_rejects_exactly [where
        lib = "\<lparr>lax_bool = (\<lambda>v. None), email_str = Some, http_url = Some\<rparr>"
        and body = "[''description'' \<mapsto> VStr ''d'']" and db = None and oid = 1
        and now = "(2024, 1, 1, 0, 0, 0, 0)"] c
    by blast
  from a b c d show ?thesis by blast
qed

end
